theory Spec2Isabelle
  imports Complex_Main "HOL-Library.Sublist" "HOL-Library.AList"
begin

section \<open>Python primitives used by the betting code\<close>

text \<open>
  Python \<open>str\<close> values are modelled as \<^typ>\<open>string\<close> (for text outside ASCII: the
  UTF-8 bytes of the text).  Python \<open>float\<close> values are modelled as exact rationals:
  the lines and prices of the feed are short decimals such as \<open>2.5\<close> or \<open>1.85\<close>, and
  the code only compares them with integers, adds integers to them and multiplies them
  by integers.  Rounding of binary floating point is therefore outside this model.
\<close>

datatype py_error = ValueError

definition py_startswith :: "string \<Rightarrow> string \<Rightarrow> bool" where
  "py_startswith s p = prefix p s"

fun py_in :: "string \<Rightarrow> string \<Rightarrow> bool" where
  "py_in sub [] = (sub = [])"
| "py_in sub (c # cs) = (prefix sub (c # cs) \<or> py_in sub cs)"

text \<open>\<open>s.replace(old, new)\<close> for a non-empty \<open>old\<close>: every non-overlapping
  occurrence, scanning from the left.\<close>

function py_replace :: "string \<Rightarrow> string \<Rightarrow> string \<Rightarrow> string" where
  "py_replace old new [] = []"
| "py_replace old new (c # cs) =
     (if old \<noteq> [] \<and> prefix old (c # cs)
      then new @ py_replace old new (drop (length old) (c # cs))
      else c # py_replace old new cs)"
  by pat_completeness auto
termination
  by (relation "measure (\<lambda>(old, new, s). length s)") (auto simp: neq_Nil_conv)

definition is_digit :: "char \<Rightarrow> bool" where
  "is_digit c = (c \<in> set ''0123456789'')"

definition is_space :: "char \<Rightarrow> bool" where
  "is_space c = (c \<in> {CHR '' '', CHR 0x09, CHR 0x0A, CHR 0x0B, CHR 0x0C, CHR 0x0D})"

definition py_strip :: "string \<Rightarrow> string" where
  "py_strip s = rev (dropWhile is_space (rev (dropWhile is_space s)))"

definition digit_val :: "char \<Rightarrow> nat" where
  "digit_val c = of_char c - 48"

definition digits_val :: "string \<Rightarrow> nat" where
  "digits_val ds = foldl (\<lambda>n c. 10 * n + digit_val c) 0 ds"

text \<open>\<open>float(s)\<close> on plain decimal text: optional surrounding white space, an
  optional sign, digits with an optional fraction (\<open>2\<close>, \<open>2.5\<close>, \<open>.5\<close>, \<open>5.\<close>).
  \<open>None\<close> stands for \<open>ValueError\<close>.  Exponents, \<open>inf\<close>, \<open>nan\<close>, digit
  separators and non-ASCII digits, which Python also reads, are not covered.\<close>

definition float_unsigned :: "string \<Rightarrow> rat option" where
  "float_unsigned s =
     (let ip = takeWhile is_digit s; rest = dropWhile is_digit s in
      case rest of
        [] \<Rightarrow> if ip = [] then None else Some (of_nat (digits_val ip))
      | c # fp \<Rightarrow>
          if c = CHR ''.'' \<and> list_all is_digit fp \<and> (ip \<noteq> [] \<or> fp \<noteq> [])
          then Some (of_nat (digits_val ip) + of_nat (digits_val fp) / 10 ^ length fp)
          else None)"

definition py_float :: "string \<Rightarrow> rat option" where
  "py_float s =
     (case py_strip s of
        [] \<Rightarrow> None
      | c # r \<Rightarrow>
          if c = CHR ''-'' then map_option uminus (float_unsigned r)
          else if c = CHR ''+'' then float_unsigned r
          else float_unsigned (c # r))"

text \<open>\<open>int(x)\<close> on a float truncates towards zero.\<close>

definition py_int :: "rat \<Rightarrow> int" where
  "py_int q = (if 0 \<le> q then \<lfloor>q\<rfloor> else \<lceil>q\<rceil>)"

section \<open>Match statistics and verdicts\<close>

text \<open>
  The statistics dictionary handed to the resolvers.  \<open>first_goal\<close> is \<open>None\<close> when
  the key is absent (the API's \<open>get_match_statistics\<close> never sets it); the bot fills it
  with \<open>'home'\<close>, \<open>'away'\<close>, \<open>'none'\<close> or the empty string when the side could not be
  derived.
\<close>

record stats =
  outcome :: string
  home_score :: int
  away_score :: int
  total_goals :: int
  both_scored :: bool
  total_corners :: int
  home_corners :: int
  away_corners :: int
  total_yellow :: int
  home_yellow :: int
  away_yellow :: int
  has_penalty :: bool
  first_goal :: "string option"

text \<open>The resolvers return \<open>True\<close> (\<open>Won\<close>), \<open>False\<close> (\<open>Lost\<close>), the string
  \<open>'push'\<close> (\<open>Push\<close>, API only) or \<open>None\<close> (\<open>Undetermined\<close>, bot only).\<close>

datatype verdict = Won | Lost | Push | Undetermined

definition truth :: "bool \<Rightarrow> verdict" where
  "truth b = (if b then Won else Lost)"

text \<open>\<open>str(n)\<close> of an integer, as the f-strings \<open>f"{home_score}-{away_score}"\<close> print it.\<close>

fun str_nat :: "nat \<Rightarrow> string" where
  "str_nat n =
     (if n < 10 then [char_of (48 + n)]
      else str_nat (n div 10) @ [char_of (48 + n mod 10)])"

declare str_nat.simps [simp del]

definition py_str :: "int \<Rightarrow> string" where
  "py_str i = (if i < 0 then CHR ''-'' # str_nat (nat (- i)) else str_nat (nat i))"

section \<open>The API resolver: \<open>settle_bet_by_type\<close> (api.py)\<close>

text \<open>The over/under rule written out eight times in the source: a whole line that
  the statistic hits exactly is a push; otherwise the comparison is strict.\<close>

definition over_rule :: "int \<Rightarrow> string \<Rightarrow> py_error + verdict" where
  "over_rule tot s =
     (case py_float s of
        None \<Rightarrow> Inl ValueError
      | Some line \<Rightarrow>
          if of_int tot = line \<and> line = of_int (py_int line) then Inr Push
          else Inr (truth (of_int tot > line)))"

definition under_rule :: "int \<Rightarrow> string \<Rightarrow> py_error + verdict" where
  "under_rule tot s =
     (case py_float s of
        None \<Rightarrow> Inl ValueError
      | Some line \<Rightarrow>
          if of_int tot = line \<and> line = of_int (py_int line) then Inr Push
          else Inr (truth (of_int tot < line)))"

definition handicap_rule :: "int \<Rightarrow> int \<Rightarrow> string \<Rightarrow> py_error + verdict" where
  "handicap_rule mine other s =
     (case py_float s of
        None \<Rightarrow> Inl ValueError
      | Some line \<Rightarrow>
          (let diff = of_int (mine - other) + line in
           if diff = 0 then Inr Push else Inr (truth (diff > 0))))"

definition settle_bet_by_type :: "string \<Rightarrow> stats \<Rightarrow> py_error + verdict" where
  "settle_bet_by_type bet_type st =
    (if bet_type \<in> set [''home'', ''draw'', ''away''] then Inr (truth (bet_type = outcome st))
     else if py_startswith bet_type ''score_'' then
       Inr (truth (py_replace ''score_'' [] bet_type
                     = py_str (home_score st) @ ''-'' @ py_str (away_score st)))
     else if py_startswith bet_type ''total_over_'' then
       over_rule (total_goals st) (py_replace ''total_over_'' [] bet_type)
     else if py_startswith bet_type ''total_under_'' then
       under_rule (total_goals st) (py_replace ''total_under_'' [] bet_type)
     else if bet_type = ''btts_yes'' then Inr (truth (both_scored st = True))
     else if bet_type = ''btts_no'' then Inr (truth (both_scored st = False))
     else if bet_type = ''dc_1x'' then Inr (truth (outcome st \<in> set [''home'', ''draw'']))
     else if bet_type = ''dc_x2'' then Inr (truth (outcome st \<in> set [''draw'', ''away'']))
     else if bet_type = ''dc_12'' then Inr (truth (outcome st \<in> set [''home'', ''away'']))
     else if bet_type = ''dnb_home'' then
       (if outcome st = ''draw'' then Inr Push else Inr (truth (outcome st = ''home'')))
     else if bet_type = ''dnb_away'' then
       (if outcome st = ''draw'' then Inr Push else Inr (truth (outcome st = ''away'')))
     else if py_startswith bet_type ''corners_over_'' then
       over_rule (total_corners st) (py_replace ''corners_over_'' [] bet_type)
     else if py_startswith bet_type ''corners_under_'' then
       under_rule (total_corners st) (py_replace ''corners_under_'' [] bet_type)
     else if py_startswith bet_type ''home_total_over_'' then
       over_rule (home_score st) (py_replace ''home_total_over_'' [] bet_type)
     else if py_startswith bet_type ''home_total_under_'' then
       under_rule (home_score st) (py_replace ''home_total_under_'' [] bet_type)
     else if py_startswith bet_type ''away_total_over_'' then
       over_rule (away_score st) (py_replace ''away_total_over_'' [] bet_type)
     else if py_startswith bet_type ''away_total_under_'' then
       under_rule (away_score st) (py_replace ''away_total_under_'' [] bet_type)
     else if py_startswith bet_type ''handicap_home_'' then
       handicap_rule (home_score st) (away_score st) (py_replace ''handicap_home_'' [] bet_type)
     else if py_startswith bet_type ''handicap_away_'' then
       handicap_rule (away_score st) (home_score st) (py_replace ''handicap_away_'' [] bet_type)
     else if bet_type = ''first_goal_home'' then Inr (truth (first_goal st = Some ''home''))
     else if bet_type = ''first_goal_away'' then Inr (truth (first_goal st = Some ''away''))
     else if bet_type = ''first_goal_none'' then Inr (truth (total_goals st = 0))
     else Inr Lost)"

section \<open>The bot resolver: \<open>check_bet_won\<close> (bot.py)\<close>

definition strict_over :: "int \<Rightarrow> string \<Rightarrow> py_error + verdict" where
  "strict_over tot s =
     (case py_float s of
        None \<Rightarrow> Inl ValueError
      | Some line \<Rightarrow> Inr (truth (of_int tot > line)))"

definition strict_under :: "int \<Rightarrow> string \<Rightarrow> py_error + verdict" where
  "strict_under tot s =
     (case py_float s of
        None \<Rightarrow> Inl ValueError
      | Some line \<Rightarrow> Inr (truth (of_int tot < line)))"

definition strict_handicap :: "int \<Rightarrow> int \<Rightarrow> string \<Rightarrow> py_error + verdict" where
  "strict_handicap mine other s =
     (case py_float s of
        None \<Rightarrow> Inl ValueError
      | Some line \<Rightarrow> Inr (truth (of_int (mine - other) + line > 0)))"

text \<open>The body of \<open>check_bet_won\<close> after the \<open>LIVE_\<close> marker has been removed.\<close>

definition check_bet_won_body :: "string \<Rightarrow> stats \<Rightarrow> py_error + verdict" where
  "check_bet_won_body bet_type st =
    (if bet_type \<in> set [''home'', ''draw'', ''away''] then Inr (truth (bet_type = outcome st))
     else if py_startswith bet_type ''score_'' then
       Inr (truth (py_replace ''score_'' [] bet_type
                     = py_str (home_score st) @ ''-'' @ py_str (away_score st)))
     else if py_startswith bet_type ''total_over_'' then
       strict_over (total_goals st) (py_replace ''total_over_'' [] bet_type)
     else if py_startswith bet_type ''total_under_'' then
       strict_under (total_goals st) (py_replace ''total_under_'' [] bet_type)
     else if bet_type = ''btts_yes'' then Inr (truth (both_scored st))
     else if bet_type = ''btts_no'' then Inr (truth (\<not> both_scored st))
     else if bet_type = ''total_even'' then Inr (truth (total_goals st mod 2 = 0))
     else if bet_type = ''total_odd'' then Inr (truth (total_goals st mod 2 = 1))
     else if py_startswith bet_type ''corners_over_'' then
       strict_over (total_corners st) (py_replace ''corners_over_'' [] bet_type)
     else if py_startswith bet_type ''corners_under_'' then
       strict_under (total_corners st) (py_replace ''corners_under_'' [] bet_type)
     else if py_startswith bet_type ''cards_over_'' then
       strict_over (total_yellow st) (py_replace ''cards_over_'' [] bet_type)
     else if py_startswith bet_type ''cards_under_'' then
       strict_under (total_yellow st) (py_replace ''cards_under_'' [] bet_type)
     else if py_startswith bet_type ''home_over_'' then
       strict_over (home_score st) (py_replace ''home_over_'' [] bet_type)
     else if py_startswith bet_type ''home_under_'' then
       strict_under (home_score st) (py_replace ''home_under_'' [] bet_type)
     else if py_startswith bet_type ''away_over_'' then
       strict_over (away_score st) (py_replace ''away_over_'' [] bet_type)
     else if py_startswith bet_type ''away_under_'' then
       strict_under (away_score st) (py_replace ''away_under_'' [] bet_type)
     else if bet_type = ''penalty_yes'' then Inr (truth (has_penalty st))
     else if bet_type = ''penalty_no'' then Inr (truth (\<not> has_penalty st))
     else if bet_type = ''dc_1x'' then Inr (truth (outcome st \<in> set [''home'', ''draw'']))
     else if bet_type = ''dc_x2'' then Inr (truth (outcome st \<in> set [''draw'', ''away'']))
     else if bet_type = ''dc_12'' then Inr (truth (outcome st \<in> set [''home'', ''away'']))
     else if bet_type = ''dnb_home'' then Inr (truth (outcome st = ''home''))
     else if bet_type = ''dnb_away'' then Inr (truth (outcome st = ''away''))
     else if py_startswith bet_type ''first_goal_''
             \<and> (case first_goal st of None \<Rightarrow> True | Some fg \<Rightarrow> fg = []) then Inr Undetermined
     else if py_startswith bet_type ''first_goal_'' \<and> bet_type = ''first_goal_home'' then
       Inr (truth (first_goal st = Some ''home''))
     else if py_startswith bet_type ''first_goal_'' \<and> bet_type = ''first_goal_away'' then
       Inr (truth (first_goal st = Some ''away''))
     else if py_startswith bet_type ''first_goal_'' \<and> bet_type = ''first_goal_none'' then
       Inr (truth (first_goal st = Some ''none''))
     else if py_startswith bet_type ''handicap_home_'' then
       strict_handicap (home_score st) (away_score st) (py_replace ''handicap_home_'' [] bet_type)
     else if py_startswith bet_type ''handicap_away_'' then
       strict_handicap (away_score st) (home_score st) (py_replace ''handicap_away_'' [] bet_type)
     else if py_startswith bet_type ''asian_home_'' then
       strict_handicap (home_score st) (away_score st) (py_replace ''asian_home_'' [] bet_type)
     else if py_startswith bet_type ''asian_away_'' then
       strict_handicap (away_score st) (home_score st) (py_replace ''asian_away_'' [] bet_type)
     else if py_startswith bet_type ''corners_home_over_'' then
       strict_over (home_corners st) (py_replace ''corners_home_over_'' [] bet_type)
     else if py_startswith bet_type ''corners_home_under_'' then
       strict_under (home_corners st) (py_replace ''corners_home_under_'' [] bet_type)
     else if py_startswith bet_type ''corners_away_over_'' then
       strict_over (away_corners st) (py_replace ''corners_away_over_'' [] bet_type)
     else if py_startswith bet_type ''corners_away_under_'' then
       strict_under (away_corners st) (py_replace ''corners_away_under_'' [] bet_type)
     else if py_startswith bet_type ''cards_home_over_'' then
       strict_over (home_yellow st) (py_replace ''cards_home_over_'' [] bet_type)
     else if py_startswith bet_type ''cards_home_under_'' then
       strict_under (home_yellow st) (py_replace ''cards_home_under_'' [] bet_type)
     else if py_startswith bet_type ''cards_away_over_'' then
       strict_over (away_yellow st) (py_replace ''cards_away_over_'' [] bet_type)
     else if py_startswith bet_type ''cards_away_under_'' then
       strict_under (away_yellow st) (py_replace ''cards_away_under_'' [] bet_type)
     else Inr Lost)"

definition check_bet_won :: "string \<Rightarrow> stats \<Rightarrow> py_error + verdict" where
  "check_bet_won bet_type st =
     check_bet_won_body
       (if py_startswith bet_type ''LIVE_'' then py_replace ''LIVE_'' [] bet_type else bet_type)
       st"

section \<open>The database\<close>

text \<open>
  The SQLite tables as lists of rows, in row-id order; \<open>UPDATE ... WHERE\<close> rewrites the
  rows the condition selects, \<open>SELECT ... WHERE\<close> filters, \<open>INSERT\<close> appends.  Only the
  columns the modelled statements read or write are kept (free-text descriptions, team
  names and time stamps are left out).  The rows carry every column a statement names:
  besides the columns of \<open>init_database\<close> these are \<open>payout\<close> (written by the bot),
  \<open>predictions_correct\<close>, \<open>predictions_incorrect\<close> (written by the API) and
  \<open>referred_by\<close> (added by migrate_referral.py).  No script of the repository creates
  \<open>payout\<close> or \<open>predictions_incorrect\<close>; the model takes the tables to have them, so a
  statement that names one of them succeeds here, where on a database built by
  \<open>init_database\<close> alone it would raise.
\<close>

record user =
  user_id :: int
  balance :: int
  wager_remaining :: int
  bets_total :: int
  bets_won :: int
  bets_lost :: int
  bets_profit :: int
  predictions_won :: int
  predictions_lost :: int
  predictions_profit :: int
  predictions_correct :: int
  predictions_incorrect :: int
  referred_by :: "int option"

record bet =
  bet_id :: int
  b_user_id :: int
  b_match_id :: string
  bet_type :: string
  amount :: int
  odds :: rat
  potential_win :: int
  b_status :: string
  b_result :: "string option"
  profit :: int
  payout :: "int option"

record prediction =
  prediction_id :: int
  p_user_id :: int
  p_match_id :: string
  prediction :: string
  p_status :: string
  actual_result :: "string option"
  points_change :: int

record txn =
  t_user_id :: int
  t_type :: string
  t_amount :: int
  balance_before :: "int option"
  balance_after :: "int option"
  wager_before :: "int option"
  wager_after :: "int option"
  reference_id :: "string option"

record db =
  users :: "user list"
  bets :: "bet list"
  predictions :: "prediction list"
  transactions :: "txn list"

definition update_users :: "(user \<Rightarrow> bool) \<Rightarrow> (user \<Rightarrow> user) \<Rightarrow> db \<Rightarrow> db" where
  "update_users cond f d = d\<lparr>users := map (\<lambda>u. if cond u then f u else u) (users d)\<rparr>"

definition update_bets :: "(bet \<Rightarrow> bool) \<Rightarrow> (bet \<Rightarrow> bet) \<Rightarrow> db \<Rightarrow> db" where
  "update_bets cond f d = d\<lparr>bets := map (\<lambda>b. if cond b then f b else b) (bets d)\<rparr>"

definition update_predictions :: "(prediction \<Rightarrow> bool) \<Rightarrow> (prediction \<Rightarrow> prediction) \<Rightarrow> db \<Rightarrow> db" where
  "update_predictions cond f d =
     d\<lparr>predictions := map (\<lambda>p. if cond p then f p else p) (predictions d)\<rparr>"

definition insert_txn :: "txn \<Rightarrow> db \<Rightarrow> db" where
  "insert_txn t d = d\<lparr>transactions := transactions d @ [t]\<rparr>"

text \<open>\<open>SELECT balance FROM users WHERE user_id = ?\<close> followed by
  \<open>user[0]['balance'] if user else 0\<close>.\<close>

definition balance_of :: "db \<Rightarrow> int \<Rightarrow> int" where
  "balance_of d uid =
     (case filter (\<lambda>u. user_id u = uid) (users d) of [] \<Rightarrow> 0 | u # _ \<Rightarrow> balance u)"

definition pending_bets :: "string \<Rightarrow> db \<Rightarrow> bet list" where
  "pending_bets match_id d =
     filter (\<lambda>b. b_match_id b = match_id \<and> b_status b = ''pending'') (bets d)"

definition pending_predictions :: "string \<Rightarrow> db \<Rightarrow> prediction list" where
  "pending_predictions match_id d =
     filter (\<lambda>p. p_match_id p = match_id \<and> p_status p = ''pending'') (predictions d)"

text \<open>\<open>int(amount * odds)\<close>: the product, truncated towards zero.\<close>

definition winnings_of :: "int \<Rightarrow> rat \<Rightarrow> int" where
  "winnings_of amt price = py_int (of_int amt * price)"

section \<open>API settlement: \<open>settle_all_bets_advanced\<close> (api.py)\<close>

record settle_result =
  res_bets_settled :: nat
  res_predictions_settled :: nat
  res_bets_won :: nat
  res_bets_lost :: nat
  res_bets_pushed :: nat

definition no_result :: settle_result where
  "no_result = \<lparr>res_bets_settled = 0, res_predictions_settled = 0, res_bets_won = 0,
                 res_bets_lost = 0, res_bets_pushed = 0\<rparr>"

text \<open>One turn of the loop over the selected bets.  Every \<open>_execute\<close> commits at once,
  so an exception raised by \<open>settle_bet_by_type\<close> leaves the work of the earlier turns in
  place: the loop returns the database reached so far and the error.\<close>

definition settle_one_advanced :: "stats \<Rightarrow> bet \<Rightarrow> db \<times> settle_result \<Rightarrow> py_error + db \<times> settle_result" where
  "settle_one_advanced st b dr =
     (case dr of (d, r) \<Rightarrow>
      case settle_bet_by_type (bet_type b) st of
        Inl e \<Rightarrow> Inl e
      | Inr v \<Rightarrow>
          if v = Push then
            Inr (update_users (\<lambda>u. user_id u = b_user_id b) (\<lambda>u. u\<lparr>balance := balance u + amount b\<rparr>)
                   (update_bets (\<lambda>x. bet_id x = bet_id b) (\<lambda>x. x\<lparr>b_status := ''returned''\<rparr>) d),
                 r\<lparr>res_bets_pushed := res_bets_pushed r + 1, res_bets_settled := res_bets_settled r + 1\<rparr>)
          else if v = Won then
            Inr (update_users (\<lambda>u. user_id u = b_user_id b)
                     (\<lambda>u. u\<lparr>balance := balance u + winnings_of (amount b) (odds b)\<rparr>)
                   (update_bets (\<lambda>x. bet_id x = bet_id b) (\<lambda>x. x\<lparr>b_status := ''won''\<rparr>) d),
                 r\<lparr>res_bets_won := res_bets_won r + 1, res_bets_settled := res_bets_settled r + 1\<rparr>)
          else
            Inr (update_bets (\<lambda>x. bet_id x = bet_id b) (\<lambda>x. x\<lparr>b_status := ''lost''\<rparr>) d,
                 r\<lparr>res_bets_lost := res_bets_lost r + 1, res_bets_settled := res_bets_settled r + 1\<rparr>))"

fun settle_bets_advanced :: "stats \<Rightarrow> bet list \<Rightarrow> db \<times> settle_result \<Rightarrow> db \<times> settle_result \<times> py_error option" where
  "settle_bets_advanced st [] dr = (fst dr, snd dr, None)"
| "settle_bets_advanced st (b # bs) dr =
     (case settle_one_advanced st b dr of
        Inl e \<Rightarrow> (fst dr, snd dr, Some e)
      | Inr dr' \<Rightarrow> settle_bets_advanced st bs dr')"

definition settle_pred_advanced :: "stats \<Rightarrow> prediction \<Rightarrow> db \<times> settle_result \<Rightarrow> db \<times> settle_result" where
  "settle_pred_advanced st p dr =
     (case dr of (d, r) \<Rightarrow>
       (if prediction p = outcome st then
          update_users (\<lambda>u. user_id u = p_user_id p)
              (\<lambda>u. u\<lparr>balance := balance u + 10, predictions_correct := predictions_correct u + 1\<rparr>)
            (update_predictions (\<lambda>x. prediction_id x = prediction_id p) (\<lambda>x. x\<lparr>p_status := ''correct''\<rparr>) d)
        else
          update_users (\<lambda>u. user_id u = p_user_id p)
              (\<lambda>u. u\<lparr>predictions_incorrect := predictions_incorrect u + 1\<rparr>)
            (update_predictions (\<lambda>x. prediction_id x = prediction_id p) (\<lambda>x. x\<lparr>p_status := ''incorrect''\<rparr>) d),
        r\<lparr>res_predictions_settled := res_predictions_settled r + 1\<rparr>))"

definition settle_all_bets_advanced :: "string \<Rightarrow> stats \<Rightarrow> db \<Rightarrow> db \<times> settle_result \<times> py_error option" where
  "settle_all_bets_advanced match_id st d =
     (case settle_bets_advanced st (pending_bets match_id d) (d, no_result) of
        (d1, r1, Some e) \<Rightarrow> (d1, r1, Some e)
      | (d1, r1, None) \<Rightarrow>
          (case foldl (\<lambda>dr p. settle_pred_advanced st p dr) (d1, r1) (pending_predictions match_id d1) of
             (d2, r2) \<Rightarrow> (d2, r2, None)))"

section \<open>Bot settlement: \<open>settle_all_bets\<close> (bot.py)\<close>

text \<open>Python truth of a resolver result: \<open>True\<close> and the non-empty string \<open>'push'\<close>
  are true, \<open>False\<close> and \<open>None\<close> are false.\<close>

definition truthy :: "verdict \<Rightarrow> bool" where
  "truthy v = (v = Won \<or> v = Push)"

record bot_result =
  bot_bets_settled :: nat
  bot_bets_won :: nat
  bot_bets_lost :: nat
  bot_predictions_settled :: nat
  bot_predictions_correct :: nat

definition no_bot_result :: bot_result where
  "no_bot_result = \<lparr>bot_bets_settled = 0, bot_bets_won = 0, bot_bets_lost = 0,
                     bot_predictions_settled = 0, bot_predictions_correct = 0\<rparr>"

definition settle_one_bot :: "stats \<Rightarrow> bet \<Rightarrow> db \<times> bot_result \<Rightarrow> py_error + db \<times> bot_result" where
  "settle_one_bot st b dr =
     (case dr of (d, r) \<Rightarrow>
      case check_bet_won (bet_type b) st of
        Inl e \<Rightarrow> Inl e
      | Inr won \<Rightarrow>
          if won = Undetermined then Inr (d, r)
          else if truthy won then
            (let winnings = winnings_of (amount b) (odds b);
                 bal_before = balance_of d (b_user_id b);
                 bal_after = bal_before + winnings;
                 d1 = update_bets (\<lambda>x. bet_id x = bet_id b)
                        (\<lambda>x. x\<lparr>b_status := ''won'', payout := Some winnings\<rparr>) d;
                 d2 = update_users (\<lambda>u. user_id u = b_user_id b)
                        (\<lambda>u. u\<lparr>balance := bal_after, bets_won := bets_won u + 1\<rparr>) d1;
                 d3 = insert_txn \<lparr>t_user_id = b_user_id b, t_type = ''bet_win'', t_amount = winnings,
                        balance_before = Some bal_before, balance_after = Some bal_after,
                        wager_before = None, wager_after = None,
                        reference_id = Some (py_str (bet_id b))\<rparr> d2
             in Inr (d3, r\<lparr>bot_bets_won := bot_bets_won r + 1, bot_bets_settled := bot_bets_settled r + 1\<rparr>))
          else
            (let bal = balance_of d (b_user_id b);
                 d1 = update_bets (\<lambda>x. bet_id x = bet_id b) (\<lambda>x. x\<lparr>b_status := ''lost''\<rparr>) d;
                 d2 = update_users (\<lambda>u. user_id u = b_user_id b)
                        (\<lambda>u. u\<lparr>bets_lost := bets_lost u + 1\<rparr>) d1;
                 d3 = insert_txn \<lparr>t_user_id = b_user_id b, t_type = ''bet_lose'', t_amount = 0,
                        balance_before = Some bal, balance_after = Some bal,
                        wager_before = None, wager_after = None,
                        reference_id = Some (py_str (bet_id b))\<rparr> d2
             in Inr (d3, r\<lparr>bot_bets_lost := bot_bets_lost r + 1, bot_bets_settled := bot_bets_settled r + 1\<rparr>)))"

fun settle_bets_bot :: "stats \<Rightarrow> bet list \<Rightarrow> db \<times> bot_result \<Rightarrow> db \<times> bot_result \<times> py_error option" where
  "settle_bets_bot st [] dr = (fst dr, snd dr, None)"
| "settle_bets_bot st (b # bs) dr =
     (case settle_one_bot st b dr of
        Inl e \<Rightarrow> (fst dr, snd dr, Some e)
      | Inr dr' \<Rightarrow> settle_bets_bot st bs dr')"

definition settle_pred_bot :: "stats \<Rightarrow> prediction \<Rightarrow> db \<times> bot_result \<Rightarrow> db \<times> bot_result" where
  "settle_pred_bot st p dr =
     (case dr of (d, r) \<Rightarrow>
       (if prediction p = outcome st then
          (let bal_before = balance_of d (p_user_id p);
               bal_after = bal_before + 5;
               d1 = update_predictions (\<lambda>x. prediction_id x = prediction_id p)
                      (\<lambda>x. x\<lparr>p_status := ''correct'', points_change := 5\<rparr>) d;
               d2 = update_users (\<lambda>u. user_id u = p_user_id p)
                      (\<lambda>u. u\<lparr>balance := bal_after, predictions_won := predictions_won u + 1\<rparr>) d1;
               d3 = insert_txn \<lparr>t_user_id = p_user_id p, t_type = ''prediction_win'', t_amount = 5,
                      balance_before = Some bal_before, balance_after = Some bal_after,
                      wager_before = None, wager_after = None,
                      reference_id = Some (py_str (prediction_id p))\<rparr> d2
           in (d3, r\<lparr>bot_predictions_correct := bot_predictions_correct r + 1,
                     bot_predictions_settled := bot_predictions_settled r + 1\<rparr>))
        else
          (let bal_before = balance_of d (p_user_id p);
               bal_after = bal_before - 10;
               d1 = update_predictions (\<lambda>x. prediction_id x = prediction_id p)
                      (\<lambda>x. x\<lparr>p_status := ''incorrect'', points_change := - 10\<rparr>) d;
               d2 = update_users (\<lambda>u. user_id u = p_user_id p)
                      (\<lambda>u. u\<lparr>balance := bal_after, predictions_lost := predictions_lost u + 1\<rparr>) d1;
               d3 = insert_txn \<lparr>t_user_id = p_user_id p, t_type = ''prediction_lose'', t_amount = - 10,
                      balance_before = Some bal_before, balance_after = Some bal_after,
                      wager_before = None, wager_after = None,
                      reference_id = Some (py_str (prediction_id p))\<rparr> d2
           in (d3, r\<lparr>bot_predictions_settled := bot_predictions_settled r + 1\<rparr>))))"

definition settle_all_bets :: "string \<Rightarrow> stats \<Rightarrow> db \<Rightarrow> db \<times> bot_result \<times> py_error option" where
  "settle_all_bets match_id st d =
     (case settle_bets_bot st (pending_bets match_id d) (d, no_bot_result) of
        (d1, r1, Some e) \<Rightarrow> (d1, r1, Some e)
      | (d1, r1, None) \<Rightarrow>
          (case foldl (\<lambda>dr p. settle_pred_bot st p dr) (d1, r1) (pending_predictions match_id d1) of
             (d2, r2) \<Rightarrow> (d2, r2, None)))"

section \<open>The ledger functions of database.py\<close>

definition get_user :: "db \<Rightarrow> int \<Rightarrow> user option" where
  "get_user d uid = (case filter (\<lambda>u. user_id u = uid) (users d) of [] \<Rightarrow> None | u # _ \<Rightarrow> Some u)"

text \<open>\<open>update_user_balance\<close> with \<open>affect_wager\<close> as a parameter; the result is the
  database and the boolean the function returns.\<close>

definition update_user_balance :: "int \<Rightarrow> int \<Rightarrow> string \<Rightarrow> string option \<Rightarrow> bool \<Rightarrow> db \<Rightarrow> db \<times> bool" where
  "update_user_balance uid amt transaction_type ref affect_wager d =
     (case get_user d uid of
        None \<Rightarrow> (d, False)
      | Some row \<Rightarrow>
          (let bal_before = balance row;
               wbefore = wager_remaining row;
               bal_after = bal_before + amt;
               wafter = (if affect_wager \<and> amt > 0 then wbefore + amt else wbefore)
           in if bal_after < 0 then (d, False)
              else (insert_txn \<lparr>t_user_id = uid, t_type = transaction_type, t_amount = amt,
                       balance_before = Some bal_before, balance_after = Some bal_after,
                       wager_before = Some wbefore, wager_after = Some wafter,
                       reference_id = ref\<rparr>
                     (update_users (\<lambda>u. user_id u = uid)
                        (\<lambda>u. u\<lparr>balance := bal_after, wager_remaining := wafter\<rparr>) d),
                    True)))"



text \<open>\<open>settle_bet\<close>: \<open>exact_score\<close> is \<open>None\<close> when the caller passes no score.\<close>

definition settle_bet :: "int \<Rightarrow> string \<Rightarrow> string option \<Rightarrow> db \<Rightarrow> db \<times> bool" where
  "settle_bet bid res exact_score d =
     (case filter (\<lambda>b. bet_id b = bid \<and> b_status b = ''pending'') (bets d) of
        [] \<Rightarrow> (d, False)
      | b # _ \<Rightarrow>
          (let is_won =
                 (if py_startswith (bet_type b) ''score_''
                  then (case exact_score of
                          None \<Rightarrow> False
                        | Some sc \<Rightarrow> sc \<noteq> [] \<and> py_replace ''score_'' [] (bet_type b) = sc)
                  else bet_type b = res)
           in if is_won then
                (let prof = potential_win b - amount b;
                     d1 = fst (update_user_balance (b_user_id b) (potential_win b) ''bet_win''
                                 (Some (py_str bid)) False d);
                     d2 = update_users (\<lambda>u. user_id u = b_user_id b)
                            (\<lambda>u. u\<lparr>bets_won := bets_won u + 1, bets_profit := bets_profit u + prof\<rparr>) d1
                 in (update_bets (\<lambda>x. bet_id x = bid)
                       (\<lambda>x. x\<lparr>b_status := ''won'', b_result := Some res, profit := prof\<rparr>) d2, True))
              else
                (let prof = - amount b;
                     d1 = update_users (\<lambda>u. user_id u = b_user_id b)
                            (\<lambda>u. u\<lparr>bets_lost := bets_lost u + 1, bets_profit := bets_profit u + prof\<rparr>) d
                 in (update_bets (\<lambda>x. bet_id x = bid)
                       (\<lambda>x. x\<lparr>b_status := ''lost'', b_result := Some res, profit := prof\<rparr>) d1, True))))"

definition settle_prediction :: "int \<Rightarrow> string \<Rightarrow> db \<Rightarrow> db \<times> bool" where
  "settle_prediction pid actual d =
     (case filter (\<lambda>p. prediction_id p = pid \<and> p_status p = ''pending'') (predictions d) of
        [] \<Rightarrow> (d, False)
      | p # _ \<Rightarrow>
          if prediction p = actual then
            (let d1 = fst (update_user_balance (p_user_id p) 5 ''prediction_win''
                             (Some (py_str pid)) False d);
                 d2 = update_users (\<lambda>u. user_id u = p_user_id p)
                        (\<lambda>u. u\<lparr>predictions_won := predictions_won u + 1,
                               predictions_profit := predictions_profit u + 5\<rparr>) d1
             in (update_predictions (\<lambda>x. prediction_id x = pid)
                   (\<lambda>x. x\<lparr>p_status := ''correct'', actual_result := Some actual, points_change := 5\<rparr>) d2,
                 True))
          else
            (let d1 = fst (update_user_balance (p_user_id p) (- 10) ''prediction_loss''
                             (Some (py_str pid)) False d);
                 d2 = update_users (\<lambda>u. user_id u = p_user_id p)
                        (\<lambda>u. u\<lparr>predictions_lost := predictions_lost u + 1,
                               predictions_profit := predictions_profit u - 10\<rparr>) d1
             in (update_predictions (\<lambda>x. prediction_id x = pid)
                   (\<lambda>x. x\<lparr>p_status := ''incorrect'', actual_result := Some actual,
                          points_change := - 10\<rparr>) d2,
                 True)))"

text \<open>\<open>settle_all_for_match\<close>: the result is the database and the two counters.\<close>

definition settle_all_for_match :: "string \<Rightarrow> string \<Rightarrow> string option \<Rightarrow> db \<Rightarrow> db \<times> nat \<times> nat" where
  "settle_all_for_match match_id res exact_score d =
     (let (d1, bets_n) =
            foldl (\<lambda>(dd, n) b. case settle_bet (bet_id b) res exact_score dd of
                                  (dd', ok) \<Rightarrow> (dd', if ok then n + 1 else n))
                  (d, 0) (pending_bets match_id d);
          (d2, preds_n) =
            foldl (\<lambda>(dd, n) p. case settle_prediction (prediction_id p) res dd of
                                  (dd', ok) \<Rightarrow> (dd', if ok then n + 1 else n))
                  (d1, 0) (pending_predictions match_id d1)
      in (d2, bets_n, preds_n))"

section \<open>Sample data\<close>

text \<open>A finished match, 2:1 for the home side, as \<open>get_match_statistics\<close> of the API
  reports it: the dictionary has no \<open>first_goal\<close> key.\<close>

definition stats_2_1 :: stats where
  "stats_2_1 = \<lparr>outcome = ''home'', home_score = 2, away_score = 1, total_goals = 3,
     both_scored = True, total_corners = 9, home_corners = 5, away_corners = 4,
     total_yellow = 3, home_yellow = 1, away_yellow = 2, has_penalty = False,
     first_goal = None\<rparr>"

definition sample_user :: user where
  "sample_user = \<lparr>user_id = 7, balance = 100, wager_remaining = 30, bets_total = 1,
     bets_won = 0, bets_lost = 0, bets_profit = 0, predictions_won = 0, predictions_lost = 0,
     predictions_profit = 0, predictions_correct = 0, predictions_incorrect = 0,
     referred_by = None\<rparr>"

definition sample_bet :: "string \<Rightarrow> bet" where
  "sample_bet key = \<lparr>bet_id = 1, b_user_id = 7, b_match_id = ''m1'', bet_type = key,
     amount = 50, odds = 2, potential_win = 100, b_status = ''pending'', b_result = None,
     profit = 0, payout = None\<rparr>"

definition sample_db :: "string \<Rightarrow> db" where
  "sample_db key = \<lparr>users = [sample_user], bets = [sample_bet key], predictions = [],
     transactions = []\<rparr>"


text \<open>The characters of the decimal texts \<open>py_float\<close> reads.\<close>

definition float_chars :: "char set" where
  "float_chars = set ''0123456789.+-'' \<union> {c. is_space c}"

text \<open>A 1:1 draw (two goals) and a 3:4 away win, as the bot assembles them (with a
  first-goal side).\<close>

definition stats_1_1 :: stats where
  "stats_1_1 = \<lparr>outcome = ''draw'', home_score = 1, away_score = 1, total_goals = 2,
     both_scored = True, total_corners = 8, home_corners = 4, away_corners = 4,
     total_yellow = 2, home_yellow = 1, away_yellow = 1, has_penalty = False,
     first_goal = Some ''home''\<rparr>"

definition stats_3_4 :: stats where
  "stats_3_4 = \<lparr>outcome = ''away'', home_score = 3, away_score = 4, total_goals = 7,
     both_scored = True, total_corners = 11, home_corners = 6, away_corners = 5,
     total_yellow = 4, home_yellow = 2, away_yellow = 2, has_penalty = True,
     first_goal = Some ''away''\<rparr>"




text \<open>Three users with one pending prediction each on match \<open>m1\<close>: a correct one, an
  incorrect one by a user holding 5 points, an incorrect one by a user holding 100.\<close>

definition pred_db :: db where
  "pred_db =
     \<lparr>users = [sample_user, sample_user\<lparr>user_id := 8, balance := 5\<rparr>, sample_user\<lparr>user_id := 9\<rparr>],
      bets = [],
      predictions =
        [\<lparr>prediction_id = 1, p_user_id = 7, p_match_id = ''m1'', prediction = ''home'',
           p_status = ''pending'', actual_result = None, points_change = 0\<rparr>,
         \<lparr>prediction_id = 2, p_user_id = 8, p_match_id = ''m1'', prediction = ''away'',
           p_status = ''pending'', actual_result = None, points_change = 0\<rparr>,
         \<lparr>prediction_id = 3, p_user_id = 9, p_match_id = ''m1'', prediction = ''draw'',
           p_status = ''pending'', actual_result = None, points_change = 0\<rparr>],
      transactions = []\<rparr>"


section \<open>Placing a wager: \<open>place_bet_endpoint\<close> and \<open>process_referral_bonus\<close> (api.py)\<close>

















section \<open>The odds feed: \<open>_parse_leon_markets\<close> (api.py)\<close>

text \<open>
  The feed is Russian.  The literals the parser looks for are written out as their
  UTF-8 bytes; each definition names the word and its code points.
\<close>

definition ru_tochnyj_schet :: string where \<comment> \<open>exact score: U+0442 U+043E U+0447 U+043D U+044B U+0439 U+0020 U+0441 U+0447 U+0435 U+0442\<close>
  "ru_tochnyj_schet =
    [CHR 0xD1, CHR 0x82, CHR 0xD0, CHR 0xBE, CHR 0xD1, CHR 0x87, CHR 0xD0, CHR 0xBD,
     CHR 0xD1, CHR 0x8B, CHR 0xD0, CHR 0xB9, CHR '' '', CHR 0xD1, CHR 0x81, CHR 0xD1,
     CHR 0x87, CHR 0xD0, CHR 0xB5, CHR 0xD1, CHR 0x82]"

definition ru_tochnyj_schyot :: string where \<comment> \<open>exact score, with the letter yo: U+0442 U+043E U+0447 U+043D U+044B U+0439 U+0020 U+0441 U+0447 U+0451 U+0442\<close>
  "ru_tochnyj_schyot =
    [CHR 0xD1, CHR 0x82, CHR 0xD0, CHR 0xBE, CHR 0xD1, CHR 0x87, CHR 0xD0, CHR 0xBD,
     CHR 0xD1, CHR 0x8B, CHR 0xD0, CHR 0xB9, CHR '' '', CHR 0xD1, CHR 0x81, CHR 0xD1,
     CHR 0x87, CHR 0xD1, CHR 0x91, CHR 0xD1, CHR 0x82]"

definition ru_tajm :: string where \<comment> \<open>half: U+0442 U+0430 U+0439 U+043C\<close>
  "ru_tajm =
    [CHR 0xD1, CHR 0x82, CHR 0xD0, CHR 0xB0, CHR 0xD0, CHR 0xB9, CHR 0xD0, CHR 0xBC]"

definition ru_chet :: string where \<comment> \<open>even: U+0447 U+0435 U+0442\<close>
  "ru_chet =
    [CHR 0xD1, CHR 0x87, CHR 0xD0, CHR 0xB5, CHR 0xD1, CHR 0x82]"

definition ru_chyot :: string where \<comment> \<open>even, with the letter yo: U+0447 U+0451 U+0442\<close>
  "ru_chyot =
    [CHR 0xD1, CHR 0x87, CHR 0xD1, CHR 0x91, CHR 0xD1, CHR 0x82]"

definition ru_nechet :: string where \<comment> \<open>odd: U+043D U+0435 U+0447 U+0435 U+0442\<close>
  "ru_nechet =
    [CHR 0xD0, CHR 0xBD, CHR 0xD0, CHR 0xB5, CHR 0xD1, CHR 0x87, CHR 0xD0, CHR 0xB5,
     CHR 0xD1, CHR 0x82]"

definition ru_nechyot :: string where \<comment> \<open>odd, with the letter yo: U+043D U+0435 U+0447 U+0451 U+0442\<close>
  "ru_nechyot =
    [CHR 0xD0, CHR 0xBD, CHR 0xD0, CHR 0xB5, CHR 0xD1, CHR 0x87, CHR 0xD1, CHR 0x91,
     CHR 0xD1, CHR 0x82]"

definition ru_uglovy :: string where \<comment> \<open>corner: U+0443 U+0433 U+043B U+043E U+0432 U+044B\<close>
  "ru_uglovy =
    [CHR 0xD1, CHR 0x83, CHR 0xD0, CHR 0xB3, CHR 0xD0, CHR 0xBB, CHR 0xD0, CHR 0xBE,
     CHR 0xD0, CHR 0xB2, CHR 0xD1, CHR 0x8B]"

definition ru_kartoch :: string where \<comment> \<open>card: U+043A U+0430 U+0440 U+0442 U+043E U+0447\<close>
  "ru_kartoch =
    [CHR 0xD0, CHR 0xBA, CHR 0xD0, CHR 0xB0, CHR 0xD1, CHR 0x80, CHR 0xD1, CHR 0x82,
     CHR 0xD0, CHR 0xBE, CHR 0xD1, CHR 0x87]"

definition ru_polovin :: string where \<comment> \<open>half (of the match): U+043F U+043E U+043B U+043E U+0432 U+0438 U+043D\<close>
  "ru_polovin =
    [CHR 0xD0, CHR 0xBF, CHR 0xD0, CHR 0xBE, CHR 0xD0, CHR 0xBB, CHR 0xD0, CHR 0xBE,
     CHR 0xD0, CHR 0xB2, CHR 0xD0, CHR 0xB8, CHR 0xD0, CHR 0xBD]"

definition ru_tochn :: string where \<comment> \<open>exact: U+0442 U+043E U+0447 U+043D\<close>
  "ru_tochn =
    [CHR 0xD1, CHR 0x82, CHR 0xD0, CHR 0xBE, CHR 0xD1, CHR 0x87, CHR 0xD0, CHR 0xBD]"

definition ru_chet_nechet :: string where \<comment> \<open>even/odd: U+0447 U+0435 U+0442 U+002F U+043D U+0435 U+0447 U+0435 U+0442\<close>
  "ru_chet_nechet =
    [CHR 0xD1, CHR 0x87, CHR 0xD0, CHR 0xB5, CHR 0xD1, CHR 0x82, CHR ''/'', CHR 0xD0,
     CHR 0xBD, CHR 0xD0, CHR 0xB5, CHR 0xD1, CHR 0x87, CHR 0xD0, CHR 0xB5, CHR 0xD1,
     CHR 0x82]"

definition ru_iskhod :: string where \<comment> \<open>result: U+0438 U+0441 U+0445 U+043E U+0434\<close>
  "ru_iskhod =
    [CHR 0xD0, CHR 0xB8, CHR 0xD1, CHR 0x81, CHR 0xD1, CHR 0x85, CHR 0xD0, CHR 0xBE,
     CHR 0xD0, CHR 0xB4]"

definition ru_1x2_cyr :: string where \<comment> \<open>1x2 with the Cyrillic letter kha: U+0031 U+0445 U+0032\<close>
  "ru_1x2_cyr =
    [CHR ''1'', CHR 0xD1, CHR 0x85, CHR ''2'']"

definition ru_dvojnoj :: string where \<comment> \<open>double: U+0434 U+0432 U+043E U+0439 U+043D U+043E U+0439\<close>
  "ru_dvojnoj =
    [CHR 0xD0, CHR 0xB4, CHR 0xD0, CHR 0xB2, CHR 0xD0, CHR 0xBE, CHR 0xD0, CHR 0xB9,
     CHR 0xD0, CHR 0xBD, CHR 0xD0, CHR 0xBE, CHR 0xD0, CHR 0xB9]"

definition ru_shans :: string where \<comment> \<open>chance: U+0448 U+0430 U+043D U+0441\<close>
  "ru_shans =
    [CHR 0xD1, CHR 0x88, CHR 0xD0, CHR 0xB0, CHR 0xD0, CHR 0xBD, CHR 0xD1, CHR 0x81]"

definition ru_zhelt :: string where \<comment> \<open>yellow: U+0436 U+0435 U+043B U+0442\<close>
  "ru_zhelt =
    [CHR 0xD0, CHR 0xB6, CHR 0xD0, CHR 0xB5, CHR 0xD0, CHR 0xBB, CHR 0xD1, CHR 0x82]"

definition ru_obe :: string where \<comment> \<open>both: U+043E U+0431 U+0435\<close>
  "ru_obe =
    [CHR 0xD0, CHR 0xBE, CHR 0xD0, CHR 0xB1, CHR 0xD0, CHR 0xB5]"

definition ru_zab :: string where \<comment> \<open>score (verb stem): U+0437 U+0430 U+0431 U+044C\<close>
  "ru_zab =
    [CHR 0xD0, CHR 0xB7, CHR 0xD0, CHR 0xB0, CHR 0xD0, CHR 0xB1, CHR 0xD1, CHR 0x8C]"

definition ru_rezultat :: string where \<comment> \<open>result (outcome): U+0440 U+0435 U+0437 U+0443 U+043B U+044C U+0442 U+0430 U+0442\<close>
  "ru_rezultat =
    [CHR 0xD1, CHR 0x80, CHR 0xD0, CHR 0xB5, CHR 0xD0, CHR 0xB7, CHR 0xD1, CHR 0x83,
     CHR 0xD0, CHR 0xBB, CHR 0xD1, CHR 0x8C, CHR 0xD1, CHR 0x82, CHR 0xD0, CHR 0xB0,
     CHR 0xD1, CHR 0x82]"

definition ru_nichju :: string where \<comment> \<open>draw: U+043D U+0438 U+0447 U+044C U+044E\<close>
  "ru_nichju =
    [CHR 0xD0, CHR 0xBD, CHR 0xD0, CHR 0xB8, CHR 0xD1, CHR 0x87, CHR 0xD1, CHR 0x8C,
     CHR 0xD1, CHR 0x8E]"

definition ru_pervyj_gol :: string where \<comment> \<open>first goal: U+043F U+0435 U+0440 U+0432 U+044B U+0439 U+0020 U+0433 U+043E U+043B\<close>
  "ru_pervyj_gol =
    [CHR 0xD0, CHR 0xBF, CHR 0xD0, CHR 0xB5, CHR 0xD1, CHR 0x80, CHR 0xD0, CHR 0xB2,
     CHR 0xD1, CHR 0x8B, CHR 0xD0, CHR 0xB9, CHR '' '', CHR 0xD0, CHR 0xB3, CHR 0xD0,
     CHR 0xBE, CHR 0xD0, CHR 0xBB]"

definition ru_1j_gol :: string where \<comment> \<open>1st goal: U+0031 U+002D U+0439 U+0020 U+0433 U+043E U+043B\<close>
  "ru_1j_gol =
    [CHR ''1'', CHR ''-'', CHR 0xD0, CHR 0xB9, CHR '' '', CHR 0xD0, CHR 0xB3, CHR 0xD0,
     CHR 0xBE, CHR 0xD0, CHR 0xBB]"

definition ru_kak :: string where \<comment> \<open>how, followed by a space: U+043A U+0430 U+043A U+0020\<close>
  "ru_kak =
    [CHR 0xD0, CHR 0xBA, CHR 0xD0, CHR 0xB0, CHR 0xD0, CHR 0xBA, CHR '' '']"

definition ru_penal :: string where \<comment> \<open>penalty: U+043F U+0435 U+043D U+0430 U+043B\<close>
  "ru_penal =
    [CHR 0xD0, CHR 0xBF, CHR 0xD0, CHR 0xB5, CHR 0xD0, CHR 0xBD, CHR 0xD0, CHR 0xB0,
     CHR 0xD0, CHR 0xBB]"

definition ru_budet :: string where \<comment> \<open>will be: U+0431 U+0443 U+0434 U+0435 U+0442\<close>
  "ru_budet =
    [CHR 0xD0, CHR 0xB1, CHR 0xD1, CHR 0x83, CHR 0xD0, CHR 0xB4, CHR 0xD0, CHR 0xB5,
     CHR 0xD1, CHR 0x82]"

definition ru_serija :: string where \<comment> \<open>series: U+0441 U+0435 U+0440 U+0438 U+044F\<close>
  "ru_serija =
    [CHR 0xD1, CHR 0x81, CHR 0xD0, CHR 0xB5, CHR 0xD1, CHR 0x80, CHR 0xD0, CHR 0xB8,
     CHR 0xD1, CHR 0x8F]"

definition ru_komanda :: string where \<comment> \<open>team: U+043A U+043E U+043C U+0430 U+043D U+0434 U+0430\<close>
  "ru_komanda =
    [CHR 0xD0, CHR 0xBA, CHR 0xD0, CHR 0xBE, CHR 0xD0, CHR 0xBC, CHR 0xD0, CHR 0xB0,
     CHR 0xD0, CHR 0xBD, CHR 0xD0, CHR 0xB4, CHR 0xD0, CHR 0xB0]"

definition ru_kto :: string where \<comment> \<open>who: U+043A U+0442 U+043E\<close>
  "ru_kto =
    [CHR 0xD0, CHR 0xBA, CHR 0xD1, CHR 0x82, CHR 0xD0, CHR 0xBE]"

definition ru_fora :: string where \<comment> \<open>handicap: U+0444 U+043E U+0440 U+0430\<close>
  "ru_fora =
    [CHR 0xD1, CHR 0x84, CHR 0xD0, CHR 0xBE, CHR 0xD1, CHR 0x80, CHR 0xD0, CHR 0xB0]"

definition ru_khozjaev :: string where \<comment> \<open>of the hosts: U+0445 U+043E U+0437 U+044F U+0435 U+0432\<close>
  "ru_khozjaev =
    [CHR 0xD1, CHR 0x85, CHR 0xD0, CHR 0xBE, CHR 0xD0, CHR 0xB7, CHR 0xD1, CHR 0x8F,
     CHR 0xD0, CHR 0xB5, CHR 0xD0, CHR 0xB2]"

definition ru_gostej :: string where \<comment> \<open>of the guests: U+0433 U+043E U+0441 U+0442 U+0435 U+0439\<close>
  "ru_gostej =
    [CHR 0xD0, CHR 0xB3, CHR 0xD0, CHR 0xBE, CHR 0xD1, CHR 0x81, CHR 0xD1, CHR 0x82,
     CHR 0xD0, CHR 0xB5, CHR 0xD0, CHR 0xB9]"

definition ru_aziat :: string where \<comment> \<open>Asian: U+0430 U+0437 U+0438 U+0430 U+0442\<close>
  "ru_aziat =
    [CHR 0xD0, CHR 0xB0, CHR 0xD0, CHR 0xB7, CHR 0xD0, CHR 0xB8, CHR 0xD0, CHR 0xB0,
     CHR 0xD1, CHR 0x82]"

definition ru_total :: string where \<comment> \<open>total: U+0442 U+043E U+0442 U+0430 U+043B\<close>
  "ru_total =
    [CHR 0xD1, CHR 0x82, CHR 0xD0, CHR 0xBE, CHR 0xD1, CHR 0x82, CHR 0xD0, CHR 0xB0,
     CHR 0xD0, CHR 0xBB]"

definition ru_udar :: string where \<comment> \<open>shot: U+0443 U+0434 U+0430 U+0440\<close>
  "ru_udar =
    [CHR 0xD1, CHR 0x83, CHR 0xD0, CHR 0xB4, CHR 0xD0, CHR 0xB0, CHR 0xD1, CHR 0x80]"

definition ru_fol :: string where \<comment> \<open>foul: U+0444 U+043E U+043B\<close>
  "ru_fol =
    [CHR 0xD1, CHR 0x84, CHR 0xD0, CHR 0xBE, CHR 0xD0, CHR 0xBB]"

definition ru_ofsajd :: string where \<comment> \<open>offside: U+043E U+0444 U+0441 U+0430 U+0439 U+0434\<close>
  "ru_ofsajd =
    [CHR 0xD0, CHR 0xBE, CHR 0xD1, CHR 0x84, CHR 0xD1, CHR 0x81, CHR 0xD0, CHR 0xB0,
     CHR 0xD0, CHR 0xB9, CHR 0xD0, CHR 0xB4]"

definition ru_aut :: string where \<comment> \<open>throw-in: U+0430 U+0443 U+0442\<close>
  "ru_aut =
    [CHR 0xD0, CHR 0xB0, CHR 0xD1, CHR 0x83, CHR 0xD1, CHR 0x82]"

definition ru_total_golov :: string where \<comment> \<open>total of goals: U+0442 U+043E U+0442 U+0430 U+043B U+0020 U+0433 U+043E U+043B U+043E U+0432\<close>
  "ru_total_golov =
    [CHR 0xD1, CHR 0x82, CHR 0xD0, CHR 0xBE, CHR 0xD1, CHR 0x82, CHR 0xD0, CHR 0xB0,
     CHR 0xD0, CHR 0xBB, CHR '' '', CHR 0xD0, CHR 0xB3, CHR 0xD0, CHR 0xBE, CHR 0xD0,
     CHR 0xBB, CHR 0xD0, CHR 0xBE, CHR 0xD0, CHR 0xB2]"

definition ru_total_matcha :: string where \<comment> \<open>total of the match: U+0442 U+043E U+0442 U+0430 U+043B U+0020 U+043C U+0430 U+0442 U+0447 U+0430\<close>
  "ru_total_matcha =
    [CHR 0xD1, CHR 0x82, CHR 0xD0, CHR 0xBE, CHR 0xD1, CHR 0x82, CHR 0xD0, CHR 0xB0,
     CHR 0xD0, CHR 0xBB, CHR '' '', CHR 0xD0, CHR 0xBC, CHR 0xD0, CHR 0xB0, CHR 0xD1,
     CHR 0x82, CHR 0xD1, CHR 0x87, CHR 0xD0, CHR 0xB0]"

definition ru_Bolshe :: string where \<comment> \<open>Over (capitalised): U+0411 U+043E U+043B U+044C U+0448 U+0435\<close>
  "ru_Bolshe =
    [CHR 0xD0, CHR 0x91, CHR 0xD0, CHR 0xBE, CHR 0xD0, CHR 0xBB, CHR 0xD1, CHR 0x8C,
     CHR 0xD1, CHR 0x88, CHR 0xD0, CHR 0xB5]"

definition ru_Menshe :: string where \<comment> \<open>Under (capitalised): U+041C U+0435 U+043D U+044C U+0448 U+0435\<close>
  "ru_Menshe =
    [CHR 0xD0, CHR 0x9C, CHR 0xD0, CHR 0xB5, CHR 0xD0, CHR 0xBD, CHR 0xD1, CHR 0x8C,
     CHR 0xD1, CHR 0x88, CHR 0xD0, CHR 0xB5]"

definition ru_Kha :: string where \<comment> \<open>the Cyrillic capital letter kha, which looks like X: U+0425\<close>
  "ru_Kha =
    [CHR 0xD0, CHR 0xA5]"

definition ru_1Kha :: string where \<comment> \<open>1X with the Cyrillic letter: U+0031 U+0425\<close>
  "ru_1Kha =
    [CHR ''1'', CHR 0xD0, CHR 0xA5]"

definition ru_Kha2 :: string where \<comment> \<open>X2 with the Cyrillic letter: U+0425 U+0032\<close>
  "ru_Kha2 =
    [CHR 0xD0, CHR 0xA5, CHR ''2'']"

definition ru_Da :: string where \<comment> \<open>Yes: U+0414 U+0430\<close>
  "ru_Da =
    [CHR 0xD0, CHR 0x94, CHR 0xD0, CHR 0xB0]"

definition ru_Net :: string where \<comment> \<open>No: U+041D U+0435 U+0442\<close>
  "ru_Net =
    [CHR 0xD0, CHR 0x9D, CHR 0xD0, CHR 0xB5, CHR 0xD1, CHR 0x82]"

definition ru_ne_budet :: string where \<comment> \<open>will not be: U+043D U+0435 U+0020 U+0431 U+0443 U+0434 U+0435 U+0442\<close>
  "ru_ne_budet =
    [CHR 0xD0, CHR 0xBD, CHR 0xD0, CHR 0xB5, CHR '' '', CHR 0xD0, CHR 0xB1, CHR 0xD1,
     CHR 0x83, CHR 0xD0, CHR 0xB4, CHR 0xD0, CHR 0xB5, CHR 0xD1, CHR 0x82]"

definition ru_Total_khozjaev :: string where \<comment> \<open>Total of the hosts (a market name of the feed): U+0422 U+043E U+0442 U+0430 U+043B U+0020 U+0445 U+043E U+0437 U+044F U+0435 U+0432\<close>
  "ru_Total_khozjaev =
    [CHR 0xD0, CHR 0xA2, CHR 0xD0, CHR 0xBE, CHR 0xD1, CHR 0x82, CHR 0xD0, CHR 0xB0,
     CHR 0xD0, CHR 0xBB, CHR '' '', CHR 0xD1, CHR 0x85, CHR 0xD0, CHR 0xBE, CHR 0xD0,
     CHR 0xB7, CHR 0xD1, CHR 0x8F, CHR 0xD0, CHR 0xB5, CHR 0xD0, CHR 0xB2]"

definition ru_Total :: string where \<comment> \<open>Total (a market name of the feed): U+0422 U+043E U+0442 U+0430 U+043B\<close>
  "ru_Total =
    [CHR 0xD0, CHR 0xA2, CHR 0xD0, CHR 0xBE, CHR 0xD1, CHR 0x82, CHR 0xD0, CHR 0xB0,
     CHR 0xD0, CHR 0xBB]"

definition ru_Zheltye_kartochki :: string where \<comment> \<open>Yellow cards (a market name of the feed): U+0416 U+0435 U+043B U+0442 U+044B U+0435 U+0020 U+043A U+0430 U+0440 U+0442 U+043E U+0447 U+043A U+0438\<close>
  "ru_Zheltye_kartochki =
    [CHR 0xD0, CHR 0x96, CHR 0xD0, CHR 0xB5, CHR 0xD0, CHR 0xBB, CHR 0xD1, CHR 0x82,
     CHR 0xD1, CHR 0x8B, CHR 0xD0, CHR 0xB5, CHR '' '', CHR 0xD0, CHR 0xBA, CHR 0xD0,
     CHR 0xB0, CHR 0xD1, CHR 0x80, CHR 0xD1, CHR 0x82, CHR 0xD0, CHR 0xBE, CHR 0xD1,
     CHR 0x87, CHR 0xD0, CHR 0xBA, CHR 0xD0, CHR 0xB8]"

definition ru_Iskhod_1x2 :: string where \<comment> \<open>Result 1X2 (a market name of the feed): U+0418 U+0441 U+0445 U+043E U+0434 U+0020 U+0031 U+0058 U+0032\<close>
  "ru_Iskhod_1x2 =
    [CHR 0xD0, CHR 0x98, CHR 0xD1, CHR 0x81, CHR 0xD1, CHR 0x85, CHR 0xD0, CHR 0xBE,
     CHR 0xD0, CHR 0xB4, CHR '' '', CHR ''1'', CHR ''X'', CHR ''2'']"

definition ru_Chet_nechet :: string where \<comment> \<open>Even/Odd (a market name of the feed): U+0427 U+0435 U+0442 U+002F U+041D U+0435 U+0447 U+0435 U+0442\<close>
  "ru_Chet_nechet =
    [CHR 0xD0, CHR 0xA7, CHR 0xD0, CHR 0xB5, CHR 0xD1, CHR 0x82, CHR ''/'', CHR 0xD0,
     CHR 0x9D, CHR 0xD0, CHR 0xB5, CHR 0xD1, CHR 0x87, CHR 0xD0, CHR 0xB5, CHR 0xD1,
     CHR 0x82]"

definition ru_Penalti_budet :: string where \<comment> \<open>Will there be a penalty (a market name of the feed): U+041F U+0435 U+043D U+0430 U+043B U+044C U+0442 U+0438 U+0020 U+0431 U+0443 U+0434 U+0435 U+0442\<close>
  "ru_Penalti_budet =
    [CHR 0xD0, CHR 0x9F, CHR 0xD0, CHR 0xB5, CHR 0xD0, CHR 0xBD, CHR 0xD0, CHR 0xB0,
     CHR 0xD0, CHR 0xBB, CHR 0xD1, CHR 0x8C, CHR 0xD1, CHR 0x82, CHR 0xD0, CHR 0xB8,
     CHR '' '', CHR 0xD0, CHR 0xB1, CHR 0xD1, CHR 0x83, CHR 0xD0, CHR 0xB4, CHR 0xD0,
     CHR 0xB5, CHR 0xD1, CHR 0x82]"

definition ru_Nechet :: string where \<comment> \<open>Odd (capitalised): U+041D U+0435 U+0447 U+0435 U+0442\<close>
  "ru_Nechet =
    [CHR 0xD0, CHR 0x9D, CHR 0xD0, CHR 0xB5, CHR 0xD1, CHR 0x87, CHR 0xD0, CHR 0xB5,
     CHR 0xD1, CHR 0x82]"

definition ru_Chet :: string where \<comment> \<open>Even (capitalised): U+0427 U+0435 U+0442\<close>
  "ru_Chet =
    [CHR 0xD0, CHR 0xA7, CHR 0xD0, CHR 0xB5, CHR 0xD1, CHR 0x82]"

text \<open>\<open>s.lower()\<close> on UTF-8 text, for the two alphabets of the feed: Latin \<open>A-Z\<close> and
  Cyrillic \<open>U+0400-U+042F\<close> (two bytes each; the lower-case letter is \<open>U+0450-U+045F\<close>
  resp. \<open>U+0430-U+044F\<close>).  Other letters are left as they are.\<close>

definition lower_ascii :: "char \<Rightarrow> char" where
  "lower_ascii c =
     (if 65 \<le> (of_char c :: nat) \<and> (of_char c :: nat) \<le> 90 then char_of (of_char c + 32 :: nat) else c)"

fun py_lower :: "string \<Rightarrow> string" where
  "py_lower [] = []"
| "py_lower [c] = [lower_ascii c]"
| "py_lower (c # b # cs) =
     (if c = CHR 0xD0 \<and> 0x90 \<le> (of_char b :: nat) \<and> (of_char b :: nat) \<le> 0x9F
        then CHR 0xD0 # char_of (of_char b + 0x20 :: nat) # py_lower cs
      else if c = CHR 0xD0 \<and> 0xA0 \<le> (of_char b :: nat) \<and> (of_char b :: nat) \<le> 0xAF
        then CHR 0xD1 # char_of (of_char b - 0x20 :: nat) # py_lower cs
      else if c = CHR 0xD0 \<and> 0x80 \<le> (of_char b :: nat) \<and> (of_char b :: nat) \<le> 0x8F
        then CHR 0xD1 # char_of (of_char b + 0x10 :: nat) # py_lower cs
      else lower_ascii c # py_lower (b # cs))"

text \<open>\<open>s.replace(old, new, 1)\<close>: the first occurrence only.\<close>

fun py_replace_first :: "string \<Rightarrow> string \<Rightarrow> string \<Rightarrow> string" where
  "py_replace_first old new [] = []"
| "py_replace_first old new (c # cs) =
     (if old \<noteq> [] \<and> prefix old (c # cs) then new @ drop (length old) (c # cs)
      else c # py_replace_first old new cs)"

text \<open>\<open>s.split(sep)\<close> for a one-character separator.\<close>

fun py_split :: "char \<Rightarrow> string \<Rightarrow> string list" where
  "py_split sep [] = [[]]"
| "py_split sep (c # cs) =
     (if c = sep then [] # py_split sep cs
      else (case py_split sep cs of [] \<Rightarrow> [[c]] | w # ws \<Rightarrow> (c # w) # ws))"

text \<open>\<open>s.isdigit()\<close> (ASCII digits).\<close>

definition py_isdigit :: "string \<Rightarrow> bool" where
  "py_isdigit s = (s \<noteq> [] \<and> list_all is_digit s)"

text \<open>A runner and a market of the feed, as JSON objects: every key may be absent.\<close>

record runner =
  r_name :: "string option"
  r_open :: "bool option"
  r_price :: "rat option"

record market =
  m_name :: "string option"
  m_open :: "bool option"
  m_runners :: "runner list option"

text \<open>The odds dictionary, in insertion order; \<open>odds[k] = p\<close> is \<^const>\<open>AList.update\<close>.\<close>

type_synonym odds_map = "(string \<times> rat) list"

text \<open>
  The guard every runner loop starts with: a runner that is closed
  (\<open>not r.get('open', True)\<close>), has no price or price zero (\<open>not r.get('price')\<close>), or
  a price \<open>\<le> 1\<close> or \<open>> 50\<close> is skipped.  The result is the price of a runner that
  passes.
\<close>

definition usable_price :: "runner \<Rightarrow> rat option" where
  "usable_price r =
     (if r_open r = Some False then None
      else case r_price r of
             None \<Rightarrow> None
           | Some p \<Rightarrow> if p = 0 \<or> p \<le> 1 \<or> p > 50 then None else Some p)"

definition runner_name :: "runner \<Rightarrow> string" where
  "runner_name r = (case r_name r of None \<Rightarrow> [] | Some n \<Rightarrow> n)"

text \<open>A runner loop: the body \<open>f\<close> sees the name and the price of each runner that
  passes the guard.\<close>

definition each_runner :: "(string \<Rightarrow> rat \<Rightarrow> odds_map \<Rightarrow> odds_map) \<Rightarrow> runner list \<Rightarrow> odds_map \<Rightarrow> odds_map" where
  "each_runner f rs od =
     foldl (\<lambda>acc r. case usable_price r of None \<Rightarrow> acc | Some p \<Rightarrow> f (runner_name r) p acc) od rs"

definition strip_brackets :: "string \<Rightarrow> string" where
  "strip_brackets s = py_strip (py_replace '')'' [] (py_replace ''('' [] s))"

text \<open>The body of \<open>_ou\<close> (over/under) and of \<open>_12\<close> (handicap).\<close>

definition ou_body :: "string \<Rightarrow> string \<Rightarrow> rat \<Rightarrow> odds_map \<Rightarrow> odds_map" where
  "ou_body pre rn p od =
     (if py_in ru_Bolshe rn
        then AList.update (pre @ ''_over_'' @ strip_brackets (py_replace ru_Bolshe [] rn)) p od
      else if py_in ru_Menshe rn
        then AList.update (pre @ ''_under_'' @ strip_brackets (py_replace ru_Menshe [] rn)) p od
      else od)"

definition h12_body :: "string \<Rightarrow> string \<Rightarrow> string \<Rightarrow> rat \<Rightarrow> odds_map \<Rightarrow> odds_map" where
  "h12_body p1 p2 rn p od =
     (if py_startswith rn ''1''
        then AList.update (p1 @ ''_'' @ strip_brackets (py_replace_first ''1'' [] rn)) p od
      else if py_startswith rn ''2''
        then AList.update (p2 @ ''_'' @ strip_brackets (py_replace_first ''2'' [] rn)) p od
      else od)"

definition score_body :: "string \<Rightarrow> rat \<Rightarrow> odds_map \<Rightarrow> odds_map" where
  "score_body rn p od =
     (if py_in '':'' rn then
        (case py_split CHR '':'' rn of
           [h, a] \<Rightarrow>
             if py_isdigit (py_strip h) \<and> py_isdigit (py_strip a)
             then AList.update (''score_'' @ py_strip h @ ''-'' @ py_strip a) p od else od
         | _ \<Rightarrow> od)
      else od)"

definition even_odd_body :: "string \<Rightarrow> rat \<Rightarrow> odds_map \<Rightarrow> odds_map" where
  "even_odd_body rn p od =
     (if py_lower rn \<in> set [ru_chet, ru_chyot] then AList.update ''total_even'' p od
      else if py_lower rn \<in> set [ru_nechet, ru_nechyot] then AList.update ''total_odd'' p od
      else od)"

definition result_body :: "string \<Rightarrow> rat \<Rightarrow> odds_map \<Rightarrow> odds_map" where
  "result_body rn p od =
     (if rn = ''1'' then AList.update ''home'' p od
      else if rn \<in> set [''X'', ru_Kha] then AList.update ''draw'' p od
      else if rn = ''2'' then AList.update ''away'' p od
      else od)"

definition double_chance_body :: "string \<Rightarrow> rat \<Rightarrow> odds_map \<Rightarrow> odds_map" where
  "double_chance_body rn p od =
     (if rn \<in> set [''1X'', ru_1Kha] then AList.update ''dc_1x'' p od
      else if rn \<in> set [''X2'', ru_Kha2] then AList.update ''dc_x2'' p od
      else if rn = ''12'' then AList.update ''dc_12'' p od
      else od)"

definition yes_no_body :: "string \<Rightarrow> string \<Rightarrow> string \<Rightarrow> rat \<Rightarrow> odds_map \<Rightarrow> odds_map" where
  "yes_no_body yes no rn p od =
     (if rn = ru_Da then AList.update yes p od
      else if rn = ru_Net then AList.update no p od
      else od)"

definition dnb_body :: "string \<Rightarrow> rat \<Rightarrow> odds_map \<Rightarrow> odds_map" where
  "dnb_body rn p od =
     (if rn = ''1'' then AList.update ''dnb_home'' p od
      else if rn = ''2'' then AList.update ''dnb_away'' p od
      else od)"

definition first_goal_body :: "string \<Rightarrow> rat \<Rightarrow> odds_map \<Rightarrow> odds_map" where
  "first_goal_body rn p od =
     (if rn = ''1'' then AList.update ''first_goal_home'' p od
      else if rn = ''2'' then AList.update ''first_goal_away'' p od
      else if py_in ru_ne_budet (py_lower rn) then AList.update ''first_goal_none'' p od
      else od)"


text \<open>
  One turn of the loop over the markets.  The state is the odds dictionary and the
  counter \<open>open_markets\<close>; a \<open>continue\<close> returns the state as it is.
  \<open>market_rule\<close> is the chain of tests on the lower-case market name \<open>mn\<close>, tried
  in the order of the source.
\<close>

definition market_rule :: "string \<Rightarrow> runner list \<Rightarrow> odds_map \<times> nat \<Rightarrow> odds_map \<times> nat" where
  "market_rule mn runners acc =
     (let od = fst acc; n = snd acc in
      if (py_in ru_tochnyj_schet mn \<or> py_in ru_tochnyj_schyot mn) \<and> \<not> py_in ru_tajm mn
        then (each_runner score_body runners od, n + 1)
      else if py_in ru_chet mn \<and> py_in ru_nechet mn \<and> \<not> py_in ru_tajm mn
              \<and> \<not> py_in ru_uglovy mn \<and> \<not> py_in ru_kartoch mn
        then (each_runner even_odd_body runners od, n + 1)
      else if py_in ru_tajm mn \<or> py_in ru_polovin mn \<or> py_in ru_tochn mn
              \<or> py_in ru_chet_nechet mn
        then acc
      else if py_in ru_iskhod mn \<and> (py_in ru_1x2_cyr mn \<or> py_in ''1x2'' mn)
        then (each_runner result_body runners od, n + 1)
      else if py_in ru_dvojnoj mn \<and> (py_in ru_shans mn \<or> py_in ru_iskhod mn)
              \<and> \<not> py_in ru_uglovy mn \<and> \<not> py_in ru_kartoch mn \<and> \<not> py_in ru_zhelt mn
        then (each_runner double_chance_body runners od, n + 1)
      else if py_in ru_obe mn \<and> py_in ru_zab mn
        then (each_runner (yes_no_body ''btts_yes'' ''btts_no'') runners od, n + 1)
      else if py_in ru_rezultat mn \<and> py_in ru_nichju mn
        then (each_runner dnb_body runners od, n + 1)
      else if (py_in ru_pervyj_gol mn \<or> py_in ru_1j_gol mn) \<and> \<not> py_in ru_kak mn
        then (each_runner first_goal_body runners od, n + 1)
      else if py_in ru_penal mn \<and> py_in ru_budet mn \<and> \<not> py_in ru_serija mn
              \<and> \<not> py_in ru_komanda mn
        then (each_runner (yes_no_body ''penalty_yes'' ''penalty_no'') runners od, n + 1)
      else if py_in ru_uglovy mn then
        (if list_ex (\<lambda>x. py_in x mn) [ru_kto, ru_fora, ru_dvojnoj, ru_chet, ru_tochn] then acc
         else if py_in ru_khozjaev mn then (each_runner (ou_body ''corners_home'') runners od, n + 1)
         else if py_in ru_gostej mn then (each_runner (ou_body ''corners_away'') runners od, n + 1)
         else (each_runner (ou_body ''corners'') runners od, n + 1))
      else if py_in ru_kartoch mn \<or> (py_in ru_zhelt mn \<and> py_in ru_total mn) then
        (if list_ex (\<lambda>x. py_in x mn) [ru_kto, ru_fora, ru_chet, ru_tochn] then acc
         else if py_in ru_khozjaev mn then (each_runner (ou_body ''cards_home'') runners od, n + 1)
         else if py_in ru_gostej mn then (each_runner (ou_body ''cards_away'') runners od, n + 1)
         else (each_runner (ou_body ''cards'') runners od, n + 1))
      else if mn = ru_fora \<or> (py_in ru_fora mn \<and> \<not> py_in ru_aziat mn \<and> \<not> py_in ru_uglovy mn)
        then (each_runner (h12_body ''handicap_home'' ''handicap_away'') runners od, n + 1)
      else if py_in ru_total mn \<and> py_in ru_khozjaev mn \<and> \<not> py_in ru_uglovy mn
              \<and> \<not> py_in ru_kartoch mn \<and> \<not> py_in ru_udar mn \<and> \<not> py_in ru_fol mn
              \<and> \<not> py_in ru_ofsajd mn \<and> \<not> py_in ru_aut mn
        then (each_runner (ou_body ''home'') runners od, n + 1)
      else if py_in ru_total mn \<and> py_in ru_gostej mn \<and> \<not> py_in ru_uglovy mn
              \<and> \<not> py_in ru_kartoch mn \<and> \<not> py_in ru_udar mn \<and> \<not> py_in ru_fol mn
              \<and> \<not> py_in ru_ofsajd mn \<and> \<not> py_in ru_aut mn
        then (each_runner (ou_body ''away'') runners od, n + 1)
      else if mn \<in> set [ru_total, ru_total_golov, ru_total_matcha]
        then (each_runner (ou_body ''total'') runners od, n + 1)
      else acc)"

definition parse_market :: "market \<Rightarrow> odds_map \<times> nat \<Rightarrow> odds_map \<times> nat" where
  "parse_market mk acc =
     (let mn_orig = (case m_name mk of None \<Rightarrow> [] | Some s \<Rightarrow> s);
          runners = (case m_runners mk of None \<Rightarrow> [] | Some rs \<Rightarrow> rs);
          mn = py_lower mn_orig
      in if m_open mk = Some False then acc else market_rule mn runners acc)"

text \<open>\<open>_parse_leon_markets\<close>: the dictionary \<open>{'odds': ..., 'open_markets': ...}\<close> as a
  pair.\<close>

definition parse_leon_markets :: "market list \<Rightarrow> odds_map \<times> nat" where
  "parse_leon_markets markets = foldl (\<lambda>acc mk. parse_market mk acc) ([], 0) markets"


text \<open>A sample feed: five markets with runners of every kind (good prices, a price of
  1, a price of 120, a closed runner, a runner without price).\<close>

definition mk_runner :: "string \<Rightarrow> rat \<Rightarrow> runner" where
  "mk_runner n p = \<lparr>r_name = Some n, r_open = Some True, r_price = Some p\<rparr>"

definition mk_market :: "string \<Rightarrow> runner list \<Rightarrow> market" where
  "mk_market n rs = \<lparr>m_name = Some n, m_open = Some True, m_runners = Some rs\<rparr>"

definition sample_feed :: "market list" where
  "sample_feed =
     [mk_market ru_Iskhod_1x2
        [mk_runner ''1'' (37 / 20), mk_runner ''X'' (7 / 2), mk_runner ''2'' 120],
      mk_market ru_Total_khozjaev
        [mk_runner (ru_Bolshe @ '' (1.5)'') (9 / 5), mk_runner (ru_Menshe @ '' (1.5)'') 2,
         mk_runner (ru_Bolshe @ '' (2.5)'') 1],
      mk_market ru_Zheltye_kartochki
        [mk_runner (ru_Bolshe @ '' (3.5)'') (19 / 10),
         (mk_runner (ru_Menshe @ '' (3.5)'') (19 / 10))\<lparr>r_open := Some False\<rparr>],
      mk_market ru_Chet_nechet
        [mk_runner ru_Chet (19 / 10), (mk_runner ru_Nechet 2)\<lparr>r_price := None\<rparr>,
         mk_runner ru_Nechet (39 / 20)],
      mk_market ru_Penalti_budet
        [mk_runner ru_Da 4, mk_runner ru_Net (6 / 5), mk_runner ru_Net 0]]"




section \<open>The market catalogue: \<open>_build_live_markets\<close> (api.py)\<close>

text \<open>The display texts of the catalogue, as UTF-8 bytes.\<close>

definition lbl_Khozjaeva :: string where \<comment> \<open>Hosts: U+0425 U+043E U+0437 U+044F U+0435 U+0432 U+0430\<close>
  "lbl_Khozjaeva =
    [CHR 0xD0, CHR 0xA5, CHR 0xD0, CHR 0xBE, CHR 0xD0, CHR 0xB7, CHR 0xD1, CHR 0x8F,
     CHR 0xD0, CHR 0xB5, CHR 0xD0, CHR 0xB2, CHR 0xD0, CHR 0xB0]"

definition lbl_Gosti :: string where \<comment> \<open>Guests: U+0413 U+043E U+0441 U+0442 U+0438\<close>
  "lbl_Gosti =
    [CHR 0xD0, CHR 0x93, CHR 0xD0, CHR 0xBE, CHR 0xD1, CHR 0x81, CHR 0xD1, CHR 0x82,
     CHR 0xD0, CHR 0xB8]"

definition lbl_B :: string where \<comment> \<open>O(ver), with a space: U+0411 U+0020\<close>
  "lbl_B =
    [CHR 0xD0, CHR 0x91, CHR '' '']"

definition lbl_M :: string where \<comment> \<open>U(nder), with a space: U+041C U+0020\<close>
  "lbl_M =
    [CHR 0xD0, CHR 0x9C, CHR '' '']"

definition lbl_Iskhod_matcha :: string where \<comment> \<open>Match result: U+0418 U+0441 U+0445 U+043E U+0434 U+0020 U+043C U+0430 U+0442 U+0447 U+0430\<close>
  "lbl_Iskhod_matcha =
    [CHR 0xD0, CHR 0x98, CHR 0xD1, CHR 0x81, CHR 0xD1, CHR 0x85, CHR 0xD0, CHR 0xBE,
     CHR 0xD0, CHR 0xB4, CHR '' '', CHR 0xD0, CHR 0xBC, CHR 0xD0, CHR 0xB0, CHR 0xD1,
     CHR 0x82, CHR 0xD1, CHR 0x87, CHR 0xD0, CHR 0xB0]"

definition lbl_P1 :: string where \<comment> \<open>W1: U+041F U+0031\<close>
  "lbl_P1 =
    [CHR 0xD0, CHR 0x9F, CHR ''1'']"

definition lbl_P2 :: string where \<comment> \<open>W2: U+041F U+0032\<close>
  "lbl_P2 =
    [CHR 0xD0, CHR 0x9F, CHR ''2'']"

definition lbl_Dvojnoj_shans :: string where \<comment> \<open>Double chance: U+0414 U+0432 U+043E U+0439 U+043D U+043E U+0439 U+0020 U+0448 U+0430 U+043D U+0441\<close>
  "lbl_Dvojnoj_shans =
    [CHR 0xD0, CHR 0x94, CHR 0xD0, CHR 0xB2, CHR 0xD0, CHR 0xBE, CHR 0xD0, CHR 0xB9,
     CHR 0xD0, CHR 0xBD, CHR 0xD0, CHR 0xBE, CHR 0xD0, CHR 0xB9, CHR '' '', CHR 0xD1,
     CHR 0x88, CHR 0xD0, CHR 0xB0, CHR 0xD0, CHR 0xBD, CHR 0xD1, CHR 0x81]"

definition lbl_Total_golov :: string where \<comment> \<open>Total goals: U+0422 U+043E U+0442 U+0430 U+043B U+0020 U+0433 U+043E U+043B U+043E U+0432\<close>
  "lbl_Total_golov =
    [CHR 0xD0, CHR 0xA2, CHR 0xD0, CHR 0xBE, CHR 0xD1, CHR 0x82, CHR 0xD0, CHR 0xB0,
     CHR 0xD0, CHR 0xBB, CHR '' '', CHR 0xD0, CHR 0xB3, CHR 0xD0, CHR 0xBE, CHR 0xD0,
     CHR 0xBB, CHR 0xD0, CHR 0xBE, CHR 0xD0, CHR 0xB2]"

definition lbl_Obe_zabjut :: string where \<comment> \<open>Both to score: U+041E U+0431 U+0435 U+0020 U+0437 U+0430 U+0431 U+044C U+044E U+0442\<close>
  "lbl_Obe_zabjut =
    [CHR 0xD0, CHR 0x9E, CHR 0xD0, CHR 0xB1, CHR 0xD0, CHR 0xB5, CHR '' '', CHR 0xD0,
     CHR 0xB7, CHR 0xD0, CHR 0xB0, CHR 0xD0, CHR 0xB1, CHR 0xD1, CHR 0x8C, CHR 0xD1,
     CHR 0x8E, CHR 0xD1, CHR 0x82]"

definition lbl_Rezultat_bez_nichej :: string where \<comment> \<open>Result without draw: U+0420 U+0435 U+0437 U+0443 U+043B U+044C U+0442 U+0430 U+0442 U+0020 U+0431 U+0435 U+0437 U+0020 U+043D U+0438 U+0447 U+044C U+0435 U+0439\<close>
  "lbl_Rezultat_bez_nichej =
    [CHR 0xD0, CHR 0xA0, CHR 0xD0, CHR 0xB5, CHR 0xD0, CHR 0xB7, CHR 0xD1, CHR 0x83,
     CHR 0xD0, CHR 0xBB, CHR 0xD1, CHR 0x8C, CHR 0xD1, CHR 0x82, CHR 0xD0, CHR 0xB0,
     CHR 0xD1, CHR 0x82, CHR '' '', CHR 0xD0, CHR 0xB1, CHR 0xD0, CHR 0xB5, CHR 0xD0,
     CHR 0xB7, CHR '' '', CHR 0xD0, CHR 0xBD, CHR 0xD0, CHR 0xB8, CHR 0xD1, CHR 0x87,
     CHR 0xD1, CHR 0x8C, CHR 0xD0, CHR 0xB5, CHR 0xD0, CHR 0xB9]"

definition lbl_Kto_zabjot :: string where \<comment> \<open>Who scores the first goal: U+041A U+0442 U+043E U+0020 U+0437 U+0430 U+0431 U+044C U+0451 U+0442 U+0020 U+043F U+0435 U+0440 U+0432 U+044B U+0439 U+0020 U+0433 U+043E U+043B\<close>
  "lbl_Kto_zabjot =
    [CHR 0xD0, CHR 0x9A, CHR 0xD1, CHR 0x82, CHR 0xD0, CHR 0xBE, CHR '' '', CHR 0xD0,
     CHR 0xB7, CHR 0xD0, CHR 0xB0, CHR 0xD0, CHR 0xB1, CHR 0xD1, CHR 0x8C, CHR 0xD1,
     CHR 0x91, CHR 0xD1, CHR 0x82, CHR '' '', CHR 0xD0, CHR 0xBF, CHR 0xD0, CHR 0xB5,
     CHR 0xD1, CHR 0x80, CHR 0xD0, CHR 0xB2, CHR 0xD1, CHR 0x8B, CHR 0xD0, CHR 0xB9,
     CHR '' '', CHR 0xD0, CHR 0xB3, CHR 0xD0, CHR 0xBE, CHR 0xD0, CHR 0xBB]"

definition lbl_Ne_budet :: string where \<comment> \<open>There will be none: U+041D U+0435 U+0020 U+0431 U+0443 U+0434 U+0435 U+0442\<close>
  "lbl_Ne_budet =
    [CHR 0xD0, CHR 0x9D, CHR 0xD0, CHR 0xB5, CHR '' '', CHR 0xD0, CHR 0xB1, CHR 0xD1,
     CHR 0x83, CHR 0xD0, CHR 0xB4, CHR 0xD0, CHR 0xB5, CHR 0xD1, CHR 0x82]"

definition lbl_Fora :: string where \<comment> \<open>Handicap: U+0424 U+043E U+0440 U+0430\<close>
  "lbl_Fora =
    [CHR 0xD0, CHR 0xA4, CHR 0xD0, CHR 0xBE, CHR 0xD1, CHR 0x80, CHR 0xD0, CHR 0xB0]"

definition lbl_F1 :: string where \<comment> \<open>H1: U+0424 U+0031\<close>
  "lbl_F1 =
    [CHR 0xD0, CHR 0xA4, CHR ''1'']"

definition lbl_F2 :: string where \<comment> \<open>H2: U+0424 U+0032\<close>
  "lbl_F2 =
    [CHR 0xD0, CHR 0xA4, CHR ''2'']"

definition lbl_Tochnyj_schyot :: string where \<comment> \<open>Exact score: U+0422 U+043E U+0447 U+043D U+044B U+0439 U+0020 U+0441 U+0447 U+0451 U+0442\<close>
  "lbl_Tochnyj_schyot =
    [CHR 0xD0, CHR 0xA2, CHR 0xD0, CHR 0xBE, CHR 0xD1, CHR 0x87, CHR 0xD0, CHR 0xBD,
     CHR 0xD1, CHR 0x8B, CHR 0xD0, CHR 0xB9, CHR '' '', CHR 0xD1, CHR 0x81, CHR 0xD1,
     CHR 0x87, CHR 0xD1, CHR 0x91, CHR 0xD1, CHR 0x82]"

definition lbl_Chyot_nechyot_golov :: string where \<comment> \<open>Even/odd goals: U+0427 U+0451 U+0442 U+002F U+041D U+0435 U+0447 U+0451 U+0442 U+0020 U+0433 U+043E U+043B U+043E U+0432\<close>
  "lbl_Chyot_nechyot_golov =
    [CHR 0xD0, CHR 0xA7, CHR 0xD1, CHR 0x91, CHR 0xD1, CHR 0x82, CHR ''/'', CHR 0xD0,
     CHR 0x9D, CHR 0xD0, CHR 0xB5, CHR 0xD1, CHR 0x87, CHR 0xD1, CHR 0x91, CHR 0xD1,
     CHR 0x82, CHR '' '', CHR 0xD0, CHR 0xB3, CHR 0xD0, CHR 0xBE, CHR 0xD0, CHR 0xBB,
     CHR 0xD0, CHR 0xBE, CHR 0xD0, CHR 0xB2]"

definition lbl_Chyot :: string where \<comment> \<open>Even: U+0427 U+0451 U+0442\<close>
  "lbl_Chyot =
    [CHR 0xD0, CHR 0xA7, CHR 0xD1, CHR 0x91, CHR 0xD1, CHR 0x82]"

definition lbl_Nechyot :: string where \<comment> \<open>Odd: U+041D U+0435 U+0447 U+0451 U+0442\<close>
  "lbl_Nechyot =
    [CHR 0xD0, CHR 0x9D, CHR 0xD0, CHR 0xB5, CHR 0xD1, CHR 0x87, CHR 0xD1, CHR 0x91,
     CHR 0xD1, CHR 0x82]"

definition lbl_IT_khozjaev :: string where \<comment> \<open>Team total, hosts: U+0418 U+0422 U+0020 U+0445 U+043E U+0437 U+044F U+0435 U+0432\<close>
  "lbl_IT_khozjaev =
    [CHR 0xD0, CHR 0x98, CHR 0xD0, CHR 0xA2, CHR '' '', CHR 0xD1, CHR 0x85, CHR 0xD0,
     CHR 0xBE, CHR 0xD0, CHR 0xB7, CHR 0xD1, CHR 0x8F, CHR 0xD0, CHR 0xB5, CHR 0xD0,
     CHR 0xB2]"

definition lbl_IT_gostej :: string where \<comment> \<open>Team total, guests: U+0418 U+0422 U+0020 U+0433 U+043E U+0441 U+0442 U+0435 U+0439\<close>
  "lbl_IT_gostej =
    [CHR 0xD0, CHR 0x98, CHR 0xD0, CHR 0xA2, CHR '' '', CHR 0xD0, CHR 0xB3, CHR 0xD0,
     CHR 0xBE, CHR 0xD1, CHR 0x81, CHR 0xD1, CHR 0x82, CHR 0xD0, CHR 0xB5, CHR 0xD0,
     CHR 0xB9]"

definition lbl_Total_uglovykh :: string where \<comment> \<open>Total corners: U+0422 U+043E U+0442 U+0430 U+043B U+0020 U+0443 U+0433 U+043B U+043E U+0432 U+044B U+0445\<close>
  "lbl_Total_uglovykh =
    [CHR 0xD0, CHR 0xA2, CHR 0xD0, CHR 0xBE, CHR 0xD1, CHR 0x82, CHR 0xD0, CHR 0xB0,
     CHR 0xD0, CHR 0xBB, CHR '' '', CHR 0xD1, CHR 0x83, CHR 0xD0, CHR 0xB3, CHR 0xD0,
     CHR 0xBB, CHR 0xD0, CHR 0xBE, CHR 0xD0, CHR 0xB2, CHR 0xD1, CHR 0x8B, CHR 0xD1,
     CHR 0x85]"

definition lbl_Uglovye_khozjaev :: string where \<comment> \<open>Corners, hosts: U+0423 U+0433 U+043B U+043E U+0432 U+044B U+0435 U+0020 U+0445 U+043E U+0437 U+044F U+0435 U+0432\<close>
  "lbl_Uglovye_khozjaev =
    [CHR 0xD0, CHR 0xA3, CHR 0xD0, CHR 0xB3, CHR 0xD0, CHR 0xBB, CHR 0xD0, CHR 0xBE,
     CHR 0xD0, CHR 0xB2, CHR 0xD1, CHR 0x8B, CHR 0xD0, CHR 0xB5, CHR '' '', CHR 0xD1,
     CHR 0x85, CHR 0xD0, CHR 0xBE, CHR 0xD0, CHR 0xB7, CHR 0xD1, CHR 0x8F, CHR 0xD0,
     CHR 0xB5, CHR 0xD0, CHR 0xB2]"

definition lbl_Uglovye_gostej :: string where \<comment> \<open>Corners, guests: U+0423 U+0433 U+043B U+043E U+0432 U+044B U+0435 U+0020 U+0433 U+043E U+0441 U+0442 U+0435 U+0439\<close>
  "lbl_Uglovye_gostej =
    [CHR 0xD0, CHR 0xA3, CHR 0xD0, CHR 0xB3, CHR 0xD0, CHR 0xBB, CHR 0xD0, CHR 0xBE,
     CHR 0xD0, CHR 0xB2, CHR 0xD1, CHR 0x8B, CHR 0xD0, CHR 0xB5, CHR '' '', CHR 0xD0,
     CHR 0xB3, CHR 0xD0, CHR 0xBE, CHR 0xD1, CHR 0x81, CHR 0xD1, CHR 0x82, CHR 0xD0,
     CHR 0xB5, CHR 0xD0, CHR 0xB9]"

definition lbl_Total_kartochek :: string where \<comment> \<open>Total cards: U+0422 U+043E U+0442 U+0430 U+043B U+0020 U+043A U+0430 U+0440 U+0442 U+043E U+0447 U+0435 U+043A\<close>
  "lbl_Total_kartochek =
    [CHR 0xD0, CHR 0xA2, CHR 0xD0, CHR 0xBE, CHR 0xD1, CHR 0x82, CHR 0xD0, CHR 0xB0,
     CHR 0xD0, CHR 0xBB, CHR '' '', CHR 0xD0, CHR 0xBA, CHR 0xD0, CHR 0xB0, CHR 0xD1,
     CHR 0x80, CHR 0xD1, CHR 0x82, CHR 0xD0, CHR 0xBE, CHR 0xD1, CHR 0x87, CHR 0xD0,
     CHR 0xB5, CHR 0xD0, CHR 0xBA]"

definition lbl_Kartochki_khozjaev :: string where \<comment> \<open>Cards, hosts: U+041A U+0430 U+0440 U+0442 U+043E U+0447 U+043A U+0438 U+0020 U+0445 U+043E U+0437 U+044F U+0435 U+0432\<close>
  "lbl_Kartochki_khozjaev =
    [CHR 0xD0, CHR 0x9A, CHR 0xD0, CHR 0xB0, CHR 0xD1, CHR 0x80, CHR 0xD1, CHR 0x82,
     CHR 0xD0, CHR 0xBE, CHR 0xD1, CHR 0x87, CHR 0xD0, CHR 0xBA, CHR 0xD0, CHR 0xB8,
     CHR '' '', CHR 0xD1, CHR 0x85, CHR 0xD0, CHR 0xBE, CHR 0xD0, CHR 0xB7, CHR 0xD1,
     CHR 0x8F, CHR 0xD0, CHR 0xB5, CHR 0xD0, CHR 0xB2]"

definition lbl_Kartochki_gostej :: string where \<comment> \<open>Cards, guests: U+041A U+0430 U+0440 U+0442 U+043E U+0447 U+043A U+0438 U+0020 U+0433 U+043E U+0441 U+0442 U+0435 U+0439\<close>
  "lbl_Kartochki_gostej =
    [CHR 0xD0, CHR 0x9A, CHR 0xD0, CHR 0xB0, CHR 0xD1, CHR 0x80, CHR 0xD1, CHR 0x82,
     CHR 0xD0, CHR 0xBE, CHR 0xD1, CHR 0x87, CHR 0xD0, CHR 0xBA, CHR 0xD0, CHR 0xB8,
     CHR '' '', CHR 0xD0, CHR 0xB3, CHR 0xD0, CHR 0xBE, CHR 0xD1, CHR 0x81, CHR 0xD1,
     CHR 0x82, CHR 0xD0, CHR 0xB5, CHR 0xD0, CHR 0xB9]"

definition lbl_Budet_li_penalti :: string where \<comment> \<open>Will there be a penalty: U+0411 U+0443 U+0434 U+0435 U+0442 U+0020 U+043B U+0438 U+0020 U+043F U+0435 U+043D U+0430 U+043B U+044C U+0442 U+0438\<close>
  "lbl_Budet_li_penalti =
    [CHR 0xD0, CHR 0x91, CHR 0xD1, CHR 0x83, CHR 0xD0, CHR 0xB4, CHR 0xD0, CHR 0xB5,
     CHR 0xD1, CHR 0x82, CHR '' '', CHR 0xD0, CHR 0xBB, CHR 0xD0, CHR 0xB8, CHR '' '',
     CHR 0xD0, CHR 0xBF, CHR 0xD0, CHR 0xB5, CHR 0xD0, CHR 0xBD, CHR 0xD0, CHR 0xB0,
     CHR 0xD0, CHR 0xBB, CHR 0xD1, CHR 0x8C, CHR 0xD1, CHR 0x82, CHR 0xD0, CHR 0xB8]"

text \<open>\<open>int(s)\<close> on text: optional white space and sign around decimal digits (digit
  separators and non-ASCII digits are not covered); \<open>None\<close> is \<open>ValueError\<close>.\<close>

definition py_int_text :: "string \<Rightarrow> int option" where
  "py_int_text s =
     (case py_strip s of
        [] \<Rightarrow> None
      | c # r \<Rightarrow>
          if c = CHR ''-'' then (if py_isdigit r then Some (- int (digits_val r)) else None)
          else if c = CHR ''+'' then (if py_isdigit r then Some (int (digits_val r)) else None)
          else if py_isdigit (c # r) then Some (int (digits_val (c # r))) else None)"

text \<open>The current score out of the text \<open>score\<close>; any exception (no second part, no
  number) gives 0:0.\<close>

definition parse_score :: "string \<Rightarrow> int \<times> int" where
  "parse_score score =
     (case py_split CHR '':'' (py_replace ''-'' '':'' score) of
        a # b # _ \<Rightarrow>
          (case py_int_text a of
             None \<Rightarrow> (0, 0)
           | Some hs \<Rightarrow> (case py_int_text b of None \<Rightarrow> (0, 0) | Some as \<Rightarrow> (hs, as)))
      | _ \<Rightarrow> (0, 0))"

record bet_option =
  opt_key :: string
  opt_name :: string
  opt_odds :: rat
  opt_line :: "rat option"

record bet_market =
  mkt_type :: string
  category :: string
  mkt_bets :: "bet_option list"

text \<open>\<open>odds.get(key)\<close> as a condition (present and non-zero) and \<open>odds.get(key, 0)\<close>.\<close>

definition has_odds :: "odds_map \<Rightarrow> string \<Rightarrow> bool" where
  "has_odds od key = (case map_of od key of None \<Rightarrow> False | Some p \<Rightarrow> p \<noteq> 0)"

definition odds_or_0 :: "odds_map \<Rightarrow> string \<Rightarrow> rat" where
  "odds_or_0 od key = (case map_of od key of None \<Rightarrow> 0 | Some p \<Rightarrow> p)"

text \<open>
  The first loop of \<open>_collect\<close>: the line texts of the keys of the family that pass
  the cap and the current tally.  \<open>lines_found\<close> is a set in the source; here it keeps
  the order in which the lines were first seen, which only matters between lines of equal
  value.  \<open>max_line\<close> is \<open>None\<close> when the caller gives none; a tally is an integer.
\<close>

definition add_line :: "string \<Rightarrow> string list \<Rightarrow> string list" where
  "add_line l ls = (if l \<in> set ls then ls else ls @ [l])"

definition keep_line :: "rat option \<Rightarrow> int \<Rightarrow> rat \<Rightarrow> bool" where
  "keep_line max_line current_value line_val =
     (\<not> (case max_line of None \<Rightarrow> False | Some m \<Rightarrow> m \<noteq> 0 \<and> line_val > m)
      \<and> \<not> (current_value > 0 \<and> line_val < of_int current_value))"

definition lines_found :: "odds_map \<Rightarrow> string \<Rightarrow> rat option \<Rightarrow> int \<Rightarrow> string list" where
  "lines_found od pre max_line current_value =
     foldl (\<lambda>ls key.
              if py_startswith key (pre @ ''_over_'') \<or> py_startswith key (pre @ ''_under_'')
              then (let line = py_replace (pre @ ''_under_'') [] (py_replace (pre @ ''_over_'') [] key)
                    in case py_float line of
                         None \<Rightarrow> ls
                       | Some line_val \<Rightarrow>
                           if keep_line max_line current_value line_val then add_line line ls else ls)
              else ls)
       [] (map fst od)"

text \<open>The float a line text stands for; every line in \<open>lines_found\<close> has one.\<close>

definition line_value :: "string \<Rightarrow> rat" where
  "line_value l = (case py_float l of None \<Rightarrow> 0 | Some q \<Rightarrow> q)"

text \<open>The second loop of \<open>_collect\<close>: for each line, in ascending order, the over
  option when it has a price and, only then, the under option when it has one.\<close>

definition line_options :: "odds_map \<Rightarrow> string \<Rightarrow> string \<Rightarrow> bet_option list" where
  "line_options od pre line =
     (if has_odds od (pre @ ''_over_'' @ line) then
        \<lparr>opt_key = pre @ ''_over_'' @ line, opt_name = lbl_B @ line,
          opt_odds = odds_or_0 od (pre @ ''_over_'' @ line), opt_line = Some (line_value line)\<rparr>
        # (if has_odds od (pre @ ''_under_'' @ line) then
             [\<lparr>opt_key = pre @ ''_under_'' @ line, opt_name = lbl_M @ line,
               opt_odds = odds_or_0 od (pre @ ''_under_'' @ line),
               opt_line = Some (line_value line)\<rparr>]
           else [])
      else [])"

definition collect :: "odds_map \<Rightarrow> string \<Rightarrow> rat option \<Rightarrow> int \<Rightarrow> bet_option list" where
  "collect od pre max_line current_value =
     concat (map (line_options od pre)
               (sort_key line_value (lines_found od pre max_line current_value)))"


text \<open>The fixed markets: shown when the first key has a price.\<close>

definition fixed_option :: "odds_map \<Rightarrow> string \<Rightarrow> string \<Rightarrow> bet_option" where
  "fixed_option od key name =
     \<lparr>opt_key = key, opt_name = name, opt_odds = odds_or_0 od key, opt_line = None\<rparr>"

definition market_if :: "bool \<Rightarrow> string \<Rightarrow> string \<Rightarrow> bet_option list \<Rightarrow> bet_market list" where
  "market_if shown ty cat opts =
     (if shown then [\<lparr>mkt_type = ty, category = cat, mkt_bets = opts\<rparr>] else [])"

text \<open>The handicap lines: every key of the two families gives its line text;
  \<open>sorted(h_lines, key=lambda x: float(x))\<close> raises \<open>ValueError\<close> when one of them is not
  a number.\<close>

definition handicap_lines :: "odds_map \<Rightarrow> string list" where
  "handicap_lines od =
     foldl (\<lambda>ls key.
              if py_startswith key ''handicap_home_'' \<or> py_startswith key ''handicap_away_''
              then add_line (py_replace ''handicap_away_'' [] (py_replace ''handicap_home_'' [] key)) ls
              else ls)
       [] (map fst od)"

definition handicap_options :: "odds_map \<Rightarrow> string \<Rightarrow> bet_option list" where
  "handicap_options od line =
     (if has_odds od (''handicap_home_'' @ line) then
        [\<lparr>opt_key = ''handicap_home_'' @ line, opt_name = lbl_F1 @ '' ('' @ line @ '')'',
          opt_odds = odds_or_0 od (''handicap_home_'' @ line), opt_line = Some (line_value line)\<rparr>]
      else [])
     @ (if has_odds od (''handicap_away_'' @ line) then
        [\<lparr>opt_key = ''handicap_away_'' @ line, opt_name = lbl_F2 @ '' ('' @ line @ '')'',
          opt_odds = odds_or_0 od (''handicap_away_'' @ line), opt_line = Some (line_value line)\<rparr>]
      else [])"

text \<open>Exact scores: the keys in ascending order of price, at most 15.\<close>

definition score_options :: "odds_map \<Rightarrow> bet_option list" where
  "score_options od =
     map (\<lambda>key. \<lparr>opt_key = key,
                 opt_name = py_replace ''-'' '':'' (py_replace ''score_'' [] key),
                 opt_odds = odds_or_0 od key, opt_line = None\<rparr>)
       (take 15 (sort_key (odds_or_0 od)
                   (filter (\<lambda>k. py_startswith k ''score_'') (map fst od))))"

definition build_live_markets :: "odds_map \<Rightarrow> string \<Rightarrow> string \<Rightarrow> string \<Rightarrow> py_error + bet_market list" where
  "build_live_markets od home_team away_team score =
     (let h = (if home_team = [] then lbl_Khozjaeva else home_team);
          a = (if away_team = [] then lbl_Gosti else away_team);
          hs = fst (parse_score score);
          as = snd (parse_score score);
          total_goals = hs + as
      in
      if list_ex (\<lambda>l. py_float l = None) (handicap_lines od) then Inl ValueError
      else Inr
       (market_if (has_odds od ''home'') ''match_result'' lbl_Iskhod_matcha
          [fixed_option od ''home'' lbl_P1, fixed_option od ''draw'' ''X'',
           fixed_option od ''away'' lbl_P2]
        @ market_if (has_odds od ''dc_1x'') ''double_chance'' lbl_Dvojnoj_shans
          [fixed_option od ''dc_1x'' ''1X'', fixed_option od ''dc_x2'' ''X2'',
           fixed_option od ''dc_12'' ''12'']
        @ market_if (collect od ''total'' (Some (21 / 2)) total_goals \<noteq> [])
            ''total_goals'' lbl_Total_golov (collect od ''total'' (Some (21 / 2)) total_goals)
        @ market_if (has_odds od ''btts_yes'' \<and> total_goals = 0) ''btts'' lbl_Obe_zabjut
          [fixed_option od ''btts_yes'' ru_Da, fixed_option od ''btts_no'' ru_Net]
        @ market_if (has_odds od ''dnb_home'') ''dnb'' lbl_Rezultat_bez_nichej
          [fixed_option od ''dnb_home'' (lbl_P1 @ '' ('' @ h @ '')''),
           fixed_option od ''dnb_away'' (lbl_P2 @ '' ('' @ a @ '')'')]
        @ market_if (has_odds od ''first_goal_home'' \<and> total_goals = 0) ''first_goal'' lbl_Kto_zabjot
          [fixed_option od ''first_goal_home'' (''1 ('' @ h @ '')''),
           fixed_option od ''first_goal_none'' lbl_Ne_budet,
           fixed_option od ''first_goal_away'' (''2 ('' @ a @ '')'')]
        @ market_if (concat (map (handicap_options od) (sort_key line_value (handicap_lines od))) \<noteq> [])
            ''handicap'' lbl_Fora
            (concat (map (handicap_options od) (sort_key line_value (handicap_lines od))))
        @ market_if (score_options od \<noteq> []) ''correct_score'' lbl_Tochnyj_schyot (score_options od)
        @ market_if (has_odds od ''total_even'' \<and> has_odds od ''total_odd'') ''odd_even''
            lbl_Chyot_nechyot_golov
          [fixed_option od ''total_even'' lbl_Chyot, fixed_option od ''total_odd'' lbl_Nechyot]
        @ market_if (collect od ''home'' (Some (15 / 2)) hs \<noteq> []) ''home_total''
            (lbl_IT_khozjaev @ '' ('' @ h @ '')'') (collect od ''home'' (Some (15 / 2)) hs)
        @ market_if (collect od ''away'' (Some (15 / 2)) as \<noteq> []) ''away_total''
            (lbl_IT_gostej @ '' ('' @ a @ '')'') (collect od ''away'' (Some (15 / 2)) as)
        @ market_if (collect od ''corners'' (Some 20) 0 \<noteq> []) ''total_corners''
            lbl_Total_uglovykh (collect od ''corners'' (Some 20) 0)
        @ market_if (collect od ''corners_home'' None 0 \<noteq> []) ''corners_home''
            (lbl_Uglovye_khozjaev @ '' ('' @ h @ '')'') (collect od ''corners_home'' None 0)
        @ market_if (collect od ''corners_away'' None 0 \<noteq> []) ''corners_away''
            (lbl_Uglovye_gostej @ '' ('' @ a @ '')'') (collect od ''corners_away'' None 0)
        @ market_if (collect od ''cards'' (Some 12) 0 \<noteq> []) ''total_cards''
            lbl_Total_kartochek (collect od ''cards'' (Some 12) 0)
        @ market_if (collect od ''cards_home'' None 0 \<noteq> []) ''cards_home''
            (lbl_Kartochki_khozjaev @ '' ('' @ h @ '')'') (collect od ''cards_home'' None 0)
        @ market_if (collect od ''cards_away'' None 0 \<noteq> []) ''cards_away''
            (lbl_Kartochki_gostej @ '' ('' @ a @ '')'') (collect od ''cards_away'' None 0)
        @ market_if (has_odds od ''penalty_yes'') ''penalty'' lbl_Budet_li_penalti
          [fixed_option od ''penalty_yes'' ru_Da, fixed_option od ''penalty_no'' ru_Net]))"

text \<open>A live dictionary for the catalogue: goal lines 1.5, 3.5 and 11.5, a corner line
  of 25.5, a per-team line of 0.5 for the home side.\<close>

definition live_odds_sample :: odds_map where
  "live_odds_sample =
     [(''home'', 3 / 2), (''draw'', 4), (''away'', 6),
      (''total_over_1.5'', 11 / 10), (''total_under_1.5'', 7),
      (''total_over_3.5'', 2), (''total_under_3.5'', 9 / 5),
      (''total_over_11.5'', 40), (''total_under_11.5'', 101 / 100),
      (''corners_over_9.5'', 19 / 10), (''corners_over_25.5'', 30),
      (''home_over_0.5'', 21 / 20), (''home_over_2.5'', 3), (''home_under_2.5'', 27 / 20),
      (''btts_yes'', 17 / 10), (''btts_no'', 2)]"


text \<open>
  What the catalogue promises of an option of a line market: its key is an over or
  under key of the family, its line is the number the key ends in, the line is at most
  the cap of the family and, once the tally is positive, not below the tally.
\<close>

definition line_option_within :: "string \<Rightarrow> rat \<Rightarrow> int \<Rightarrow> bet_option \<Rightarrow> bool" where
  "line_option_within pre cap tally b =
     (case opt_line b of
        None \<Rightarrow> False
      | Some q \<Rightarrow>
          q \<le> cap \<and> \<not> (0 < tally \<and> q < of_int tally)
          \<and> (py_startswith (opt_key b) (pre @ ''_over_'')
                \<and> py_float (drop (length pre + 6) (opt_key b)) = Some q
              \<or> py_startswith (opt_key b) (pre @ ''_under_'')
                \<and> py_float (drop (length pre + 7) (opt_key b)) = Some q))"


section \<open>Verified properties\<close>

subsection \<open>Lines read from outcome keys\<close>

lemma py_replace_absent:
  "old \<noteq> [] \<Longrightarrow> hd old \<notin> set s \<Longrightarrow> py_replace old new s = s"
proof (induction s)
  case Nil
  then show ?case by simp
next
  case (Cons c cs)
  then have "\<not> prefix old (c # cs)"
    by (cases old) auto
  with Cons show ?case by simp
qed

lemma py_replace_prefix:
  assumes "old \<noteq> []" and "hd old \<notin> set s"
  shows "py_replace old [] (old @ s) = s"
proof -
  obtain a r where old: "old = a # r" using assms(1) by (cases old) auto
  have "py_replace old [] (old @ s) = py_replace old [] (drop (length old) (old @ s))"
    unfolding old by simp
  then show ?thesis using assms by (simp add: py_replace_absent)
qed

lemma digit_float_char: "is_digit c \<Longrightarrow> c \<in> float_chars"
  by (auto simp: float_chars_def is_digit_def)

lemma float_unsigned_chars:
  assumes "float_unsigned s = Some q" shows "set s \<subseteq> float_chars"
proof -
  have d: "set (takeWhile is_digit s) \<subseteq> float_chars"
    using set_takeWhileD [of _ is_digit s] digit_float_char by blast
  have r: "set (dropWhile is_digit s) \<subseteq> float_chars"
  proof (cases "dropWhile is_digit s")
    case Nil
    show ?thesis unfolding Nil by simp
  next
    case (Cons c fp)
    with assms have "c = CHR ''.''" and "list_all is_digit fp"
      by (auto simp: float_unsigned_def Let_def split: if_splits)
    moreover have "CHR ''.'' \<in> float_chars" by (simp add: float_chars_def)
    ultimately show ?thesis unfolding Cons
      using digit_float_char by (auto simp: list_all_iff)
  qed
  have "set s = set (takeWhile is_digit s) \<union> set (dropWhile is_digit s)"
    by (metis set_append takeWhile_dropWhile_id)
  with d r show ?thesis by blast
qed

lemma dropWhile_chars: "set xs \<subseteq> set (dropWhile P xs) \<union> {c. P c}"
  by (induction xs) auto

lemma py_strip_chars: "set s \<subseteq> set (py_strip s) \<union> {c. is_space c}"
proof -
  have "set s \<subseteq> set (dropWhile is_space s) \<union> {c. is_space c}"
    by (rule dropWhile_chars)
  moreover have "set (rev (dropWhile is_space s))
      \<subseteq> set (dropWhile is_space (rev (dropWhile is_space s))) \<union> {c. is_space c}"
    by (rule dropWhile_chars)
  ultimately show ?thesis unfolding py_strip_def by auto
qed

lemma py_float_chars:
  assumes "py_float s = Some q" shows "set s \<subseteq> float_chars"
proof -
  have "set (py_strip s) \<subseteq> float_chars"
  proof (cases "py_strip s")
    case Nil
    show ?thesis unfolding Nil by simp
  next
    case (Cons c r)
    have sign: "CHR ''-'' \<in> float_chars" "CHR ''+'' \<in> float_chars"
      by (simp_all add: float_chars_def)
    from assms Cons consider
        (neg) q' where "c = CHR ''-''" "float_unsigned r = Some q'"
      | (pos) "c = CHR ''+''" "float_unsigned r = Some q"
      | (plain) "float_unsigned (c # r) = Some q"
      by (auto simp: py_float_def split: if_splits)
    then show ?thesis
    proof cases
      case neg
      then show ?thesis unfolding Cons using float_unsigned_chars sign by auto
    next
      case pos
      then show ?thesis unfolding Cons using float_unsigned_chars sign by auto
    next
      case plain
      then show ?thesis unfolding Cons using float_unsigned_chars by blast
    qed
  qed
  moreover have "{c. is_space c} \<subseteq> float_chars" by (auto simp: float_chars_def)
  ultimately show ?thesis using py_strip_chars [of s] by blast
qed

lemma letter_not_float_char:
  "CHR ''t'' \<notin> float_chars" "CHR ''c'' \<notin> float_chars"
  "CHR ''h'' \<notin> float_chars" "CHR ''a'' \<notin> float_chars"
  by (simp_all add: float_chars_def is_space_def)

lemma line_untouched:
  assumes "py_float l = Some q" and "p \<noteq> []" and "hd p \<notin> float_chars"
  shows "py_replace p new l = l"
  using py_float_chars [OF assms(1)] assms(2,3) by (intro py_replace_absent) auto


subsection \<open>What the API resolver does on line markets\<close>

lemma api_goal_totals:
  assumes "py_float l = Some q"
  shows "settle_bet_by_type (''total_over_'' @ l) st = over_rule (total_goals st) l"
    and "settle_bet_by_type (''total_under_'' @ l) st = under_rule (total_goals st) l"
proof -
  have "py_replace ''total_over_'' [] l = l"
       "py_replace ''total_under_'' [] l = l"
    using letter_not_float_char by (simp_all add: line_untouched [OF assms])
  then show "settle_bet_by_type (''total_over_'' @ l) st = over_rule (total_goals st) l"
    and "settle_bet_by_type (''total_under_'' @ l) st = under_rule (total_goals st) l"
    by (simp_all add: settle_bet_by_type_def py_startswith_def)
qed

lemma api_corner_totals:
  assumes "py_float l = Some q"
  shows "settle_bet_by_type (''corners_over_'' @ l) st = over_rule (total_corners st) l"
    and "settle_bet_by_type (''corners_under_'' @ l) st = under_rule (total_corners st) l"
proof -
  have "py_replace ''corners_over_'' [] l = l"
       "py_replace ''corners_under_'' [] l = l"
    using letter_not_float_char by (simp_all add: line_untouched [OF assms])
  then show "settle_bet_by_type (''corners_over_'' @ l) st = over_rule (total_corners st) l"
    and "settle_bet_by_type (''corners_under_'' @ l) st = under_rule (total_corners st) l"
    by (simp_all add: settle_bet_by_type_def py_startswith_def)
qed

lemma api_handicaps:
  assumes "py_float l = Some q"
  shows "settle_bet_by_type (''handicap_home_'' @ l) st = handicap_rule (home_score st) (away_score st) l"
    and "settle_bet_by_type (''handicap_away_'' @ l) st = handicap_rule (away_score st) (home_score st) l"
proof -
  have "py_replace ''handicap_home_'' [] l = l"
       "py_replace ''handicap_away_'' [] l = l"
    using letter_not_float_char by (simp_all add: line_untouched [OF assms])
  then show "settle_bet_by_type (''handicap_home_'' @ l) st = handicap_rule (home_score st) (away_score st) l"
    and "settle_bet_by_type (''handicap_away_'' @ l) st = handicap_rule (away_score st) (home_score st) l"
    by (simp_all add: settle_bet_by_type_def py_startswith_def)
qed

lemma py_int_of_int: "py_int (of_int n) = n"
  by (simp add: py_int_def)

lemma over_rule_whole_line:
  "py_float l = Some (of_int n) \<Longrightarrow> over_rule n l = Inr Push"
  "py_float l = Some (of_int n) \<Longrightarrow> under_rule n l = Inr Push"
  by (simp_all add: over_rule_def under_rule_def py_int_of_int)

lemma over_rule_strict:
  assumes "py_float l = Some q" and "q \<noteq> of_int tot"
  shows "over_rule tot l = Inr (truth (of_int tot > q))"
    and "under_rule tot l = Inr (truth (of_int tot < q))"
  using assms by (auto simp add: over_rule_def under_rule_def)

lemma handicap_rule_cases:
  assumes "py_float l = Some q"
  shows "handicap_rule mine other l =
           Inr (if of_int mine - of_int other + q = 0 then Push
                else if of_int mine - of_int other + q > 0 then Won else Lost)"
  using assms by (simp add: handicap_rule_def truth_def Let_def)

subsection \<open>First goal without a derivable side\<close>

text \<open>The bot resolver answers \<open>None\<close> for a first-goal wager when the statistics
  carry no first-goal side, and its settlement loop then skips the wager: database and
  counters stay as they were.\<close>

lemma check_bet_won_first_goal_home:
  "first_goal st = None \<or> first_goal st = Some [] \<Longrightarrow>
   check_bet_won ''first_goal_home'' st = Inr Undetermined"
  by (elim disjE; simp add: check_bet_won_def check_bet_won_body_def py_startswith_def)

lemma check_bet_won_first_goal_away:
  "first_goal st = None \<or> first_goal st = Some [] \<Longrightarrow>
   check_bet_won ''first_goal_away'' st = Inr Undetermined"
  by (elim disjE; simp add: check_bet_won_def check_bet_won_body_def py_startswith_def)

lemma settle_one_bot_first_goal_skips:
  assumes "first_goal st = None \<or> first_goal st = Some []"
    and "bet_type b = ''first_goal_home'' \<or> bet_type b = ''first_goal_away''"
  shows "settle_one_bot st b (d, r) = Inr (d, r)"
  using assms(2) check_bet_won_first_goal_home [OF assms(1)]
    check_bet_won_first_goal_away [OF assms(1)]
  by (auto simp add: settle_one_bot_def)

text \<open>The API resolver has no such answer: without the key it compares \<open>None\<close> with
  the side and returns \<open>False\<close>.\<close>

lemma settle_bet_by_type_first_goal_no_side:
  "first_goal st = None \<Longrightarrow>
   settle_bet_by_type ''first_goal_home'' st = Inr Lost
   \<and> settle_bet_by_type ''first_goal_away'' st = Inr Lost"
  by (simp add: settle_bet_by_type_def py_startswith_def truth_def)

text \<open>
  Claim C1.  A pending wager on \<open>first_goal_home\<close> or \<open>first_goal_away\<close> whose match
  statistics lack a derivable first-goal side is to resolve as undetermined and stay
  pending, never to be settled as lost.  On the statistics the API builds (no
  \<open>first_goal\<close> key) \<open>settle_bet_by_type\<close> answers \<open>False\<close> and
  \<open>settle_all_bets_advanced\<close> closes the wager as \<open>lost\<close>; on the same input the bot's
  \<open>check_bet_won\<close> answers \<open>None\<close> and \<open>settle_all_bets\<close> leaves it \<open>pending\<close>.
\<close>

theorem api_first_goal_without_side_settled_lost:
  "settle_bet_by_type ''first_goal_home'' stats_2_1 = Inr Lost
   \<and> map b_status (bets (fst (settle_all_bets_advanced ''m1'' stats_2_1
                                 (sample_db ''first_goal_home'')))) = [''lost'']
   \<and> check_bet_won ''first_goal_home'' stats_2_1 = Inr Undetermined
   \<and> map b_status (bets (fst (settle_all_bets ''m1'' stats_2_1
                                 (sample_db ''first_goal_home'')))) = [''pending'']"
  by code_simp


subsection \<open>Frame rules of the table updates\<close>

lemma update_users_frame [simp]:
  "bets (update_users c f d) = bets d"
  "predictions (update_users c f d) = predictions d"
  "transactions (update_users c f d) = transactions d"
  by (simp_all add: update_users_def)

lemma update_bets_frame [simp]:
  "users (update_bets c f d) = users d"
  "predictions (update_bets c f d) = predictions d"
  "transactions (update_bets c f d) = transactions d"
  by (simp_all add: update_bets_def)

lemma update_predictions_frame [simp]:
  "users (update_predictions c f d) = users d"
  "bets (update_predictions c f d) = bets d"
  "transactions (update_predictions c f d) = transactions d"
  by (simp_all add: update_predictions_def)

lemma insert_txn_frame [simp]:
  "users (insert_txn t d) = users d"
  "bets (insert_txn t d) = bets d"
  "predictions (insert_txn t d) = predictions d"
  "transactions (insert_txn t d) = transactions d @ [t]"
  by (simp_all add: insert_txn_def)


lemma pending_bets_frame [simp]:
  "pending_bets m (update_users cu fu d) = pending_bets m d"
  "pending_bets m (update_predictions cp fp d) = pending_bets m d"
  "pending_bets m (insert_txn t d) = pending_bets m d"
  by (simp_all add: pending_bets_def)

lemma pending_predictions_frame [simp]:
  "pending_predictions m (update_users cu fu d) = pending_predictions m d"
  "pending_predictions m (update_bets cb fb d) = pending_predictions m d"
  "pending_predictions m (insert_txn t d) = pending_predictions m d"
  by (simp_all add: pending_predictions_def)

lemma pending_predictions_cong:
  "predictions d' = predictions d \<Longrightarrow> pending_predictions m d' = pending_predictions m d"
  by (simp add: pending_predictions_def)

lemma filter_map_closed:
  assumes "\<And>x. c x \<Longrightarrow> \<not> P (f x)"
  shows "filter P (map (\<lambda>x. if c x then f x else x) xs) = filter (\<lambda>x. \<not> c x) (filter P xs)"
  using assms by (induction xs) auto

lemma pending_bets_closed:
  assumes "\<And>x. b_status (f x) \<noteq> ''pending''"
  shows "pending_bets m (update_bets (\<lambda>x. bet_id x = i) f d)
           = filter (\<lambda>x. bet_id x \<noteq> i) (pending_bets m d)"
  unfolding pending_bets_def update_bets_def using assms
  by (simp add: filter_map_closed)


subsection \<open>One pass of the API settlement\<close>








subsection \<open>One pass of the database settlement\<close>

lemma update_user_balance_frame [simp]:
  "bets (fst (update_user_balance uid amt ty ref aw d)) = bets d"
  "predictions (fst (update_user_balance uid amt ty ref aw d)) = predictions d"
  by (simp_all add: update_user_balance_def Let_def split: option.split)

lemma pending_update_user_balance [simp]:
  "pending_bets m (fst (update_user_balance uid amt ty ref aw d)) = pending_bets m d"
  "pending_predictions m (fst (update_user_balance uid amt ty ref aw d)) = pending_predictions m d"
  by (simp_all add: pending_bets_def pending_predictions_def)









subsection \<open>One pass of the bot settlement\<close>








subsection \<open>Idempotent settlement\<close>



subsection \<open>Effects of single settlement steps\<close>

lemma get_user_update_users:
  assumes "\<And>u. user_id (f u) = user_id u"
  shows "get_user (update_users (\<lambda>u. user_id u = uid) f d) uid'
           = (if uid' = uid then map_option f (get_user d uid) else get_user d uid')"
proof -
  have "filter (\<lambda>u. user_id u = uid') (map (\<lambda>u. if user_id u = uid then f u else u) us)
          = (if uid' = uid then map f (filter (\<lambda>u. user_id u = uid) us)
             else filter (\<lambda>u. user_id u = uid') us)" for us
    using assms by (induction us) auto
  then show ?thesis
    by (auto simp: get_user_def update_users_def split: list.splits)
qed

lemma balance_of_get_user:
  "balance_of d uid = (case get_user d uid of None \<Rightarrow> 0 | Some u \<Rightarrow> balance u)"
  by (simp add: balance_of_def get_user_def split: list.splits)

lemma get_user_frame [simp]:
  "get_user (update_bets cb fb d) uid = get_user d uid"
  "get_user (update_predictions cp fp d) uid = get_user d uid"
  "get_user (insert_txn t d) uid = get_user d uid"
  by (simp_all add: get_user_def)

text \<open>In the API loop a push closes the wager as \<open>returned\<close> and refunds exactly the
  stake; no ledger entry is written.\<close>

lemma settle_one_advanced_push_refund:
  assumes "settle_bet_by_type (bet_type b) st = Inr Push"
    and "get_user d (b_user_id b) = Some u"
  shows "\<exists>d' r'. settle_one_advanced st b (d, r) = Inr (d', r')
           \<and> get_user d' (b_user_id b) = Some (u\<lparr>balance := balance u + amount b\<rparr>)
           \<and> pending_bets m d' = filter (\<lambda>x. bet_id x \<noteq> bet_id b) (pending_bets m d)
           \<and> transactions d' = transactions d"
  using assms
  by (simp add: settle_one_advanced_def get_user_update_users pending_bets_closed)

text \<open>In the bot loop a lost wager leaves every balance and wager counter alone, is
  closed as \<open>lost\<close> and gets one zero-amount ledger entry.\<close>

lemma settle_one_bot_lost:
  assumes "check_bet_won (bet_type b) st = Inr Lost"
  shows "\<exists>d' r'. settle_one_bot st b (d, r) = Inr (d', r')
           \<and> map balance (users d') = map balance (users d)
           \<and> map wager_remaining (users d') = map wager_remaining (users d)
           \<and> bets d' = map (\<lambda>x. if bet_id x = bet_id b then x\<lparr>b_status := ''lost''\<rparr> else x) (bets d)
           \<and> transactions d' = transactions d @
                [\<lparr>t_user_id = b_user_id b, t_type = ''bet_lose'', t_amount = 0,
                  balance_before = Some (balance_of d (b_user_id b)),
                  balance_after = Some (balance_of d (b_user_id b)),
                  wager_before = None, wager_after = None,
                  reference_id = Some (py_str (bet_id b))\<rparr>]"
  using assms
  by (simp add: settle_one_bot_def Let_def truthy_def update_users_def update_bets_def insert_txn_def comp_def)


text \<open>In the bot loop a prediction always moves the balance: by 5 when it equals the
  outcome, by \<open>- 10\<close> when it does not.\<close>

lemma settle_pred_bot_balance:
  assumes "get_user d (p_user_id p) = Some u"
  shows "map_option balance (get_user (fst (settle_pred_bot st p (d, r))) (p_user_id p))
           = Some (balance u + (if prediction p = outcome st then 5 else - 10))"
  using assms
  by (simp add: settle_pred_bot_def Let_def get_user_update_users balance_of_get_user)

subsection \<open>Whole lines\<close>

text \<open>
  Claim C2.  On an over/under key a whole line that the statistic hits exactly is a
  push and the stake is refunded; a half-point line compares strictly.  The API resolver
  does this for the goal and corner totals (lemmas \<open>api_goal_totals\<close>,
  \<open>api_corner_totals\<close>, \<open>over_rule_whole_line\<close>, \<open>over_rule_strict\<close>,
  \<open>settle_one_advanced_push_refund\<close>), and the three examples of the claim hold there.
  The bot resolver \<open>check_bet_won\<close> compares strictly on every line: with two goals
  \<open>total_over_2\<close> and \<open>total_under_2\<close> are both lost, the wager is closed as \<open>lost\<close>
  and nothing is refunded.
\<close>

theorem bot_whole_line_settled_lost:
  "check_bet_won ''total_over_2'' stats_1_1 = Inr Lost
   \<and> check_bet_won ''total_under_2'' stats_1_1 = Inr Lost
   \<and> map b_status (bets (fst (settle_all_bets ''m1'' stats_1_1 (sample_db ''total_over_2'')))) = [''lost'']
   \<and> map balance (users (fst (settle_all_bets ''m1'' stats_1_1 (sample_db ''total_over_2'')))) = [100]
   \<and> settle_bet_by_type ''total_over_2'' stats_1_1 = Inr Push
   \<and> settle_bet_by_type ''total_under_2'' stats_1_1 = Inr Push
   \<and> settle_bet_by_type ''total_over_2.5'' stats_2_1 = Inr Won
   \<and> settle_bet_by_type ''total_under_2.5'' stats_1_1 = Inr Won
   \<and> map b_status (bets (fst (settle_all_bets_advanced ''m1'' stats_1_1 (sample_db ''total_over_2'')))) = [''returned'']
   \<and> map balance (users (fst (settle_all_bets_advanced ''m1'' stats_1_1 (sample_db ''total_over_2'')))) = [150]"
  by code_simp

subsection \<open>Handicaps\<close>

text \<open>
  Claim C6.  A handicap key resolves on \<open>side_score - other_score + line\<close>: zero is a
  push, a positive value a win, anything else a loss.  The API resolver does exactly this
  (lemmas \<open>api_handicaps\<close>, \<open>handicap_rule_cases\<close>).  The bot resolver only tests
  \<open>> 0\<close>: \<open>handicap_home_1\<close> at 3:4 is lost there and the stake is not refunded.
\<close>

theorem bot_handicap_zero_settled_lost:
  "check_bet_won ''handicap_home_1'' stats_3_4 = Inr Lost
   \<and> map b_status (bets (fst (settle_all_bets ''m1'' stats_3_4 (sample_db ''handicap_home_1'')))) = [''lost'']
   \<and> map balance (users (fst (settle_all_bets ''m1'' stats_3_4 (sample_db ''handicap_home_1'')))) = [100]
   \<and> settle_bet_by_type ''handicap_home_1'' stats_3_4 = Inr Push
   \<and> map b_status (bets (fst (settle_all_bets_advanced ''m1'' stats_3_4 (sample_db ''handicap_home_1'')))) = [''returned'']
   \<and> map balance (users (fst (settle_all_bets_advanced ''m1'' stats_3_4 (sample_db ''handicap_home_1'')))) = [150]"
  by code_simp

subsection \<open>Lost wagers and the ledger\<close>

text \<open>
  Claim C5.  Settling a lost wager leaves the balance alone, sets the status to
  \<open>lost\<close> and still appends one zero-amount ledger entry.  The bot's loop does so (lemma
  \<open>settle_one_bot_lost\<close>).  The API's \<open>settle_all_bets_advanced\<close> and \<open>settle_bet\<close> of
  database.py close the wager as \<open>lost\<close> with the balance unchanged but write no ledger
  entry: after settling a lost \<open>away\<close> wager the transaction table is still empty.
\<close>

theorem lost_wager_without_ledger_entry:
  "map b_status (bets (fst (settle_all_bets_advanced ''m1'' stats_2_1 (sample_db ''away'')))) = [''lost'']
   \<and> map balance (users (fst (settle_all_bets_advanced ''m1'' stats_2_1 (sample_db ''away'')))) = [100]
   \<and> transactions (fst (settle_all_bets_advanced ''m1'' stats_2_1 (sample_db ''away''))) = []
   \<and> map b_status (bets (fst (settle_all_for_match ''m1'' ''home'' (Some ''2-1'') (sample_db ''away'')))) = [''lost'']
   \<and> map balance (users (fst (settle_all_for_match ''m1'' ''home'' (Some ''2-1'') (sample_db ''away'')))) = [100]
   \<and> transactions (fst (settle_all_for_match ''m1'' ''home'' (Some ''2-1'') (sample_db ''away''))) = []
   \<and> map b_status (bets (fst (settle_all_bets ''m1'' stats_2_1 (sample_db ''away'')))) = [''lost'']
   \<and> map balance (users (fst (settle_all_bets ''m1'' stats_2_1 (sample_db ''away'')))) = [100]
   \<and> map t_amount (transactions (fst (settle_all_bets ''m1'' stats_2_1 (sample_db ''away'')))) = [0]"
  by code_simp

subsection \<open>Predictions\<close>

text \<open>
  Claim C7.  Every pending prediction of the match is closed from the outcome alone,
  with a fixed reward credited when it equals the outcome and a fixed penalty debited
  when it does not.  All three settlements close every prediction.  The bot credits 5 and
  debits 10 (lemma \<open>settle_pred_bot_balance\<close>).  The API credits 10 and debits nothing
  for an incorrect prediction; database.py credits 5 and debits 10 only when the balance
  covers it, since \<open>update_user_balance\<close> refuses a negative balance.  Balances start at
  100, 5 and 100; the first prediction is correct, the other two are not.
\<close>

theorem incorrect_prediction_without_penalty:
  "map p_status (predictions (fst (settle_all_bets_advanced ''m1'' stats_2_1 pred_db)))
     = [''correct'', ''incorrect'', ''incorrect'']
   \<and> map balance (users (fst (settle_all_bets_advanced ''m1'' stats_2_1 pred_db))) = [110, 5, 100]
   \<and> map p_status (predictions (fst (settle_all_for_match ''m1'' ''home'' (Some ''2-1'') pred_db)))
     = [''correct'', ''incorrect'', ''incorrect'']
   \<and> map balance (users (fst (settle_all_for_match ''m1'' ''home'' (Some ''2-1'') pred_db))) = [105, 5, 90]
   \<and> map p_status (predictions (fst (settle_all_bets ''m1'' stats_2_1 pred_db)))
     = [''correct'', ''incorrect'', ''incorrect'']
   \<and> map balance (users (fst (settle_all_bets ''m1'' stats_2_1 pred_db))) = [105, - 5, 90]"
  by code_simp


subsection \<open>Placing a wager\<close>




lemma get_user_bets_update [simp]: "get_user (d\<lparr>bets := bs\<rparr>) v = get_user d v"
  by (simp add: get_user_def)














subsection \<open>Price bounds of the odds dictionary\<close>









subsection \<open>Skipped runners leave no trace\<close>









subsection \<open>Keys the API resolver does not know\<close>

text \<open>
  Claim C10.  The parser produces per-team goal totals as \<open>home_over_{line}\<close> and
  \<open>away_over_{line}\<close>, card totals as \<open>cards_over_{line}\<close> and \<open>cards_under_{line}\<close>, and
  the keys \<open>total_even\<close>, \<open>total_odd\<close>, \<open>penalty_yes\<close>, \<open>penalty_no\<close> (the sample feed
  yields six of them).  \<open>settle_bet_by_type\<close> has no branch for any of these: whatever the
  line and the statistics, it falls through to the final \<open>return False\<close>, and
  \<open>settle_all_bets_advanced\<close> closes the wager as \<open>lost\<close>, also when the statistics
  satisfy the bet (two home goals against a line of 1.5, three goals for \<open>total_odd\<close>,
  three cards against 2.5, no penalty for \<open>penalty_no\<close>), as the bot resolver confirms.
\<close>

theorem api_resolver_unknown_keys_lost:
  "settle_bet_by_type (''home_over_'' @ l) st = Inr Lost
   \<and> settle_bet_by_type (''away_over_'' @ l) st = Inr Lost
   \<and> settle_bet_by_type (''cards_over_'' @ l) st = Inr Lost
   \<and> settle_bet_by_type (''cards_under_'' @ l) st = Inr Lost
   \<and> settle_bet_by_type ''total_even'' st = Inr Lost
   \<and> settle_bet_by_type ''total_odd'' st = Inr Lost
   \<and> settle_bet_by_type ''penalty_yes'' st = Inr Lost
   \<and> settle_bet_by_type ''penalty_no'' st = Inr Lost
   \<and> set [''home_over_1.5'', ''cards_over_3.5'', ''total_even'', ''total_odd'',
           ''penalty_yes'', ''penalty_no'']
        \<subseteq> set (map fst (fst (parse_leon_markets sample_feed)))
   \<and> check_bet_won ''home_over_1.5'' stats_2_1 = Inr Won
   \<and> check_bet_won ''total_odd'' stats_2_1 = Inr Won
   \<and> check_bet_won ''cards_over_2.5'' stats_2_1 = Inr Won
   \<and> check_bet_won ''penalty_no'' stats_2_1 = Inr Won
   \<and> map b_status (bets (fst (settle_all_bets_advanced ''m1'' stats_2_1
                                 (sample_db ''home_over_1.5'')))) = [''lost'']
   \<and> map b_status (bets (fst (settle_all_bets_advanced ''m1'' stats_2_1
                                 (sample_db ''total_odd'')))) = [''lost'']"
proof -
  have fall: "settle_bet_by_type (''home_over_'' @ l) st = Inr Lost"
    "settle_bet_by_type (''away_over_'' @ l) st = Inr Lost"
    "settle_bet_by_type (''cards_over_'' @ l) st = Inr Lost"
    "settle_bet_by_type (''cards_under_'' @ l) st = Inr Lost"
    "settle_bet_by_type ''total_even'' st = Inr Lost"
    "settle_bet_by_type ''total_odd'' st = Inr Lost"
    "settle_bet_by_type ''penalty_yes'' st = Inr Lost"
    "settle_bet_by_type ''penalty_no'' st = Inr Lost"
    by (simp_all add: settle_bet_by_type_def py_startswith_def)
  have keys: "set [''home_over_1.5'', ''cards_over_3.5'', ''total_even'', ''total_odd'',
           ''penalty_yes'', ''penalty_no'']
        \<subseteq> set (map fst (fst (parse_leon_markets sample_feed)))"
    by code_simp
  have bot: "check_bet_won ''home_over_1.5'' stats_2_1 = Inr Won"
    "check_bet_won ''total_odd'' stats_2_1 = Inr Won"
    "check_bet_won ''cards_over_2.5'' stats_2_1 = Inr Won"
    "check_bet_won ''penalty_no'' stats_2_1 = Inr Won"
    by code_simp+
  have db: "map b_status (bets (fst (settle_all_bets_advanced ''m1'' stats_2_1
                                 (sample_db ''home_over_1.5'')))) = [''lost'']"
    "map b_status (bets (fst (settle_all_bets_advanced ''m1'' stats_2_1
                                 (sample_db ''total_odd'')))) = [''lost'']"
    by code_simp+
  from fall keys bot db show ?thesis by blast
qed


subsection \<open>Lines of the catalogue\<close>

lemma add_line_set: "set (add_line l ls) = insert l (set ls)"
  by (auto simp: add_line_def)

lemma lines_found_sound:
  assumes "l \<in> set (lines_found od pre max_line cur)"
  shows "\<exists>q. py_float l = Some q \<and> keep_line max_line cur q"
proof -
  let ?step = "\<lambda>ls key.
              if py_startswith key (pre @ ''_over_'') \<or> py_startswith key (pre @ ''_under_'')
              then (let line = py_replace (pre @ ''_under_'') [] (py_replace (pre @ ''_over_'') [] key)
                    in case py_float line of
                         None \<Rightarrow> ls
                       | Some line_val \<Rightarrow>
                           if keep_line max_line cur line_val then add_line line ls else ls)
              else ls"
  let ?P = "\<lambda>l. \<exists>q. py_float l = Some q \<and> keep_line max_line cur q"
  have step: "\<forall>x \<in> set (?step ls key). ?P x" if "\<forall>x \<in> set ls. ?P x" for ls key
    using that by (auto simp: Let_def add_line_set split: option.splits)
  have "\<forall>x \<in> set (foldl ?step ls keys). ?P x" if "\<forall>x \<in> set ls. ?P x" for ls keys
    using that
  proof (induction keys arbitrary: ls)
    case Nil
    then show ?case by simp
  next
    case (Cons k ks)
    from step [OF Cons.prems] have "\<forall>x \<in> set (?step ls k). ?P x" .
    from Cons.IH [OF this] show ?case by simp
  qed
  from this [of "[]" "map fst od"] assms show ?thesis
    unfolding lines_found_def by simp
qed

lemma line_options_sound:
  assumes "b \<in> set (line_options od pre l)" and "py_float l = Some q"
  shows "opt_line b = Some q
         \<and> (opt_key b = pre @ ''_over_'' @ l \<or> opt_key b = pre @ ''_under_'' @ l)
         \<and> has_odds od (opt_key b)"
  using assms by (auto simp: line_options_def line_value_def split: if_splits)

lemma collect_sound:
  assumes "b \<in> set (collect od pre max_line cur)"
  shows "\<exists>l q. py_float l = Some q \<and> keep_line max_line cur q \<and> opt_line b = Some q
           \<and> (opt_key b = pre @ ''_over_'' @ l \<or> opt_key b = pre @ ''_under_'' @ l)
           \<and> has_odds od (opt_key b)"
proof -
  from assms obtain l where l: "l \<in> set (lines_found od pre max_line cur)"
    and b: "b \<in> set (line_options od pre l)"
    by (auto simp: collect_def)
  from lines_found_sound [OF l] obtain q where q: "py_float l = Some q" "keep_line max_line cur q"
    by blast
  from line_options_sound [OF b q(1)] q show ?thesis by blast
qed

lemma keep_line_bounds:
  assumes "keep_line max_line cur q"
  shows "(0 < cur \<longrightarrow> of_int cur \<le> q)" and "max_line = Some m \<Longrightarrow> m \<noteq> 0 \<Longrightarrow> q \<le> m"
  using assms by (auto simp: keep_line_def)


lemma market_if_mem:
  "m \<in> set (market_if c ty cat opts) \<longleftrightarrow> c \<and> m = \<lparr>mkt_type = ty, category = cat, mkt_bets = opts\<rparr>"
  by (auto simp: market_if_def)

lemma build_markets_shape:
  assumes "build_live_markets od home_team away_team score = Inr ms" and "m \<in> set ms"
  shows "mkt_bets m \<noteq> []"
    and "mkt_type m = ''total_goals'' \<Longrightarrow>
           mkt_bets m = collect od ''total'' (Some (21 / 2)) (fst (parse_score score) + snd (parse_score score))"
    and "mkt_type m = ''home_total'' \<Longrightarrow>
           mkt_bets m = collect od ''home'' (Some (15 / 2)) (fst (parse_score score))"
    and "mkt_type m = ''away_total'' \<Longrightarrow>
           mkt_bets m = collect od ''away'' (Some (15 / 2)) (snd (parse_score score))"
    and "mkt_type m = ''total_corners'' \<Longrightarrow> mkt_bets m = collect od ''corners'' (Some 20) 0"
    and "mkt_type m = ''total_cards'' \<Longrightarrow> mkt_bets m = collect od ''cards'' (Some 12) 0"
proof -
  from assms have mem: "m \<in> set (projr (build_live_markets od home_team away_team score))"
    by simp
  have well: "\<not> list_ex (\<lambda>l. py_float l = None) (handicap_lines od)"
    using assms(1) by (auto simp: build_live_markets_def Let_def split: if_splits)
  note cases = mem [unfolded build_live_markets_def Let_def, simplified well, simplified,
      unfolded market_if_mem]
  show "mkt_bets m \<noteq> []" using cases by auto
  show "mkt_type m = ''total_goals'' \<Longrightarrow>
           mkt_bets m = collect od ''total'' (Some (21 / 2)) (fst (parse_score score) + snd (parse_score score))"
    using cases by auto
  show "mkt_type m = ''home_total'' \<Longrightarrow>
           mkt_bets m = collect od ''home'' (Some (15 / 2)) (fst (parse_score score))"
    using cases by auto
  show "mkt_type m = ''away_total'' \<Longrightarrow>
           mkt_bets m = collect od ''away'' (Some (15 / 2)) (snd (parse_score score))"
    using cases by auto
  show "mkt_type m = ''total_corners'' \<Longrightarrow> mkt_bets m = collect od ''corners'' (Some 20) 0"
    using cases by auto
  show "mkt_type m = ''total_cards'' \<Longrightarrow> mkt_bets m = collect od ''cards'' (Some 12) 0"
    using cases by auto
qed


lemma collect_within:
  assumes "b \<in> set (collect od pre (Some cap) cur)" and "cap \<noteq> 0"
  shows "line_option_within pre cap cur b"
proof -
  from collect_sound [OF assms(1)] obtain l q where
    q: "py_float l = Some q" and keep: "keep_line (Some cap) cur q" and line: "opt_line b = Some q"
    and key: "opt_key b = pre @ ''_over_'' @ l \<or> opt_key b = pre @ ''_under_'' @ l"
    by blast
  from keep assms(2) have "q \<le> cap" and "\<not> (0 < cur \<and> q < of_int cur)"
    by (auto simp: keep_line_def)
  moreover from key q
  have "py_startswith (opt_key b) (pre @ ''_over_'')
          \<and> py_float (drop (length pre + 6) (opt_key b)) = Some q
        \<or> py_startswith (opt_key b) (pre @ ''_under_'')
          \<and> py_float (drop (length pre + 7) (opt_key b)) = Some q"
    by (auto simp: py_startswith_def)
  ultimately show ?thesis using line by (simp add: line_option_within_def)
qed

subsection \<open>Lines that stay\<close>

lemma lines_found_complete:
  assumes key: "pre @ ''_over_'' @ l \<in> set (map fst od)"
    and q: "py_float l = Some q" and keep: "keep_line max_line cur q"
    and pre: "pre \<noteq> []" "hd pre \<notin> float_chars"
  shows "l \<in> set (lines_found od pre max_line cur)"
proof -
  let ?step = "\<lambda>ls key.
              if py_startswith key (pre @ ''_over_'') \<or> py_startswith key (pre @ ''_under_'')
              then (let line = py_replace (pre @ ''_under_'') [] (py_replace (pre @ ''_over_'') [] key)
                    in case py_float line of
                         None \<Rightarrow> ls
                       | Some line_val \<Rightarrow>
                           if keep_line max_line cur line_val then add_line line ls else ls)
              else ls"
  define k where "k = pre @ ''_over_'' @ l"
  have hd_l: "hd pre \<notin> set l" using py_float_chars [OF q] pre(2) by blast
  have "py_replace (pre @ ''_over_'') [] ((pre @ ''_over_'') @ l) = l"
    using hd_l pre(1) by (intro py_replace_prefix) simp_all
  then have r1: "py_replace (pre @ ''_over_'') [] k = l"
    by (simp add: k_def)
  have r2: "py_replace (pre @ ''_under_'') [] l = l"
    using hd_l pre(1) by (intro py_replace_absent) simp_all
  have sw: "py_startswith k (pre @ ''_over_'')"
    by (simp add: k_def py_startswith_def)
  have here: "l \<in> set (?step ls k)" for ls
    using q keep sw by (simp add: r1 r2 add_line_set)
  have mono: "set ls \<subseteq> set (?step ls k)" for ls k
    by (auto simp: Let_def add_line_set split: option.splits)
  have stays: "x \<in> set ls \<Longrightarrow> x \<in> set (foldl ?step ls keys)" for x ls keys
  proof (induction keys arbitrary: ls)
    case Nil
    then show ?case by simp
  next
    case (Cons k ks)
    from Cons.prems mono [of ls k] have "x \<in> set (?step ls k)" by blast
    from Cons.IH [OF this] show ?case by simp
  qed
  have "k \<in> set keys \<Longrightarrow> l \<in> set (foldl ?step ls keys)" for ls keys
  proof (induction keys arbitrary: ls)
    case Nil
    then show ?case by simp
  next
    case (Cons k' ks)
    show ?case
    proof (cases "k' = k")
      case True
      have "l \<in> set (?step ls k')" unfolding True by (rule here)
      from stays [OF this] show ?thesis by simp
    next
      case False
      with Cons.prems have "k \<in> set ks" by simp
      from Cons.IH [OF this] show ?thesis by simp
    qed
  qed
  from this [of "map fst od" "[]"] key show ?thesis unfolding lines_found_def k_def by simp
qed

lemma has_odds_key: "has_odds od k \<Longrightarrow> k \<in> set (map fst od)"
  by (auto simp: has_odds_def split: option.splits dest: map_of_SomeD intro: rev_image_eqI)

lemma collect_retains_over:
  assumes "has_odds od (pre @ ''_over_'' @ l)"
    and "py_float l = Some q" and "keep_line max_line cur q"
    and "pre \<noteq> []" "hd pre \<notin> float_chars"
  shows "\<exists>b \<in> set (collect od pre max_line cur). opt_key b = pre @ ''_over_'' @ l"
proof -
  have "l \<in> set (lines_found od pre max_line cur)"
    using has_odds_key [OF assms(1)] assms(2-) by (rule lines_found_complete)
  moreover have "\<exists>b \<in> set (line_options od pre l). opt_key b = pre @ ''_over_'' @ l"
    using assms(1) by (simp add: line_options_def)
  ultimately show ?thesis by (auto simp: collect_def)
qed


lemma build_total_market_present:
  assumes "build_live_markets od home_team away_team score = Inr ms"
    and "collect od ''total'' (Some (21 / 2)) (fst (parse_score score) + snd (parse_score score)) \<noteq> []"
  shows "\<lparr>mkt_type = ''total_goals'', category = lbl_Total_golov,
          mkt_bets = collect od ''total'' (Some (21 / 2))
                       (fst (parse_score score) + snd (parse_score score))\<rparr> \<in> set ms"
proof -
  have well: "\<not> list_ex (\<lambda>l. py_float l = None) (handicap_lines od)"
    using assms(1) by (auto simp: build_live_markets_def Let_def split: if_splits)
  have "ms = projr (build_live_markets od home_team away_team score)"
    using assms(1) by simp
  then show ?thesis
    unfolding build_live_markets_def Let_def using well assms(2)
    by (simp add: market_if_mem)
qed

subsection \<open>The catalogue\<close>

text \<open>
  Claim C9.  For every odds dictionary and current score, in the list the builder
  returns: no market has an empty option list; every option of the goal-total market is
  an over or under key of that family whose line is at most 10.5 and, once a goal has
  been scored, not below the number of goals scored; the same holds for the per-team
  totals with the cap 7.5 and the team's own goals, and the corner and card totals are
  capped at 20 and 12.  A goal line that has a price, is within the cap and is not below
  the tally stays in the catalogue.  (With the score 2:1 the line 1.5 is dropped and the
  line 3.5 is kept, as the sample shows.)
\<close>

theorem catalog_suppression:
  assumes "build_live_markets od home_team away_team score = Inr ms"
    and "parse_score score = (hs, as)"
  shows "(\<forall>m \<in> set ms. mkt_bets m \<noteq> []
            \<and> (mkt_type m = ''total_goals'' \<longrightarrow>
                 list_all (line_option_within ''total'' (21 / 2) (hs + as)) (mkt_bets m))
            \<and> (mkt_type m = ''home_total'' \<longrightarrow>
                 list_all (line_option_within ''home'' (15 / 2) hs) (mkt_bets m))
            \<and> (mkt_type m = ''away_total'' \<longrightarrow>
                 list_all (line_option_within ''away'' (15 / 2) as) (mkt_bets m))
            \<and> (mkt_type m = ''total_corners'' \<longrightarrow>
                 list_all (line_option_within ''corners'' 20 0) (mkt_bets m))
            \<and> (mkt_type m = ''total_cards'' \<longrightarrow>
                 list_all (line_option_within ''cards'' 12 0) (mkt_bets m)))
       \<and> (\<forall>l q. has_odds od (''total_over_'' @ l) \<and> py_float l = Some q \<and> q \<le> 21 / 2
                 \<and> \<not> (0 < hs + as \<and> q < of_int (hs + as)) \<longrightarrow>
              (\<exists>m \<in> set ms. mkt_type m = ''total_goals''
                 \<and> (\<exists>b \<in> set (mkt_bets m). opt_key b = ''total_over_'' @ l)))"
proof (intro conjI ballI allI impI)
  fix m assume m: "m \<in> set ms"
  note shape = build_markets_shape [OF assms(1) m, unfolded assms(2) fst_conv snd_conv]
  show "mkt_bets m \<noteq> []" by (rule shape(1))
  show "list_all (line_option_within ''total'' (21 / 2) (hs + as)) (mkt_bets m)"
    if "mkt_type m = ''total_goals''"
    unfolding shape(2) [OF that] list_all_iff using collect_within by fastforce
  show "list_all (line_option_within ''home'' (15 / 2) hs) (mkt_bets m)"
    if "mkt_type m = ''home_total''"
    unfolding shape(3) [OF that] list_all_iff using collect_within by fastforce
  show "list_all (line_option_within ''away'' (15 / 2) as) (mkt_bets m)"
    if "mkt_type m = ''away_total''"
    unfolding shape(4) [OF that] list_all_iff using collect_within by fastforce
  show "list_all (line_option_within ''corners'' 20 0) (mkt_bets m)"
    if "mkt_type m = ''total_corners''"
    unfolding shape(5) [OF that] list_all_iff using collect_within by fastforce
  show "list_all (line_option_within ''cards'' 12 0) (mkt_bets m)"
    if "mkt_type m = ''total_cards''"
    unfolding shape(6) [OF that] list_all_iff using collect_within by fastforce
next
  fix l q
  assume a: "has_odds od (''total_over_'' @ l) \<and> py_float l = Some q \<and> q \<le> 21 / 2
                 \<and> \<not> (0 < hs + as \<and> q < of_int (hs + as))"
  then have keep: "keep_line (Some (21 / 2)) (hs + as) q"
    by (simp add: keep_line_def)
  have "\<exists>b \<in> set (collect od ''total'' (Some (21 / 2)) (hs + as)). opt_key b = ''total'' @ ''_over_'' @ l"
    using a keep letter_not_float_char(1) by (intro collect_retains_over) auto
  then obtain b where b: "b \<in> set (collect od ''total'' (Some (21 / 2)) (hs + as))"
    and k: "opt_key b = ''total_over_'' @ l" by auto
  then have "collect od ''total'' (Some (21 / 2)) (hs + as) \<noteq> []" by auto
  with build_total_market_present [OF assms(1), unfolded assms(2) fst_conv snd_conv]
  have "\<lparr>mkt_type = ''total_goals'', category = lbl_Total_golov,
          mkt_bets = collect od ''total'' (Some (21 / 2)) (hs + as)\<rparr> \<in> set ms"
    by simp
  with b k show "\<exists>m \<in> set ms. mkt_type m = ''total_goals''
                 \<and> (\<exists>b \<in> set (mkt_bets m). opt_key b = ''total_over_'' @ l)"
    by force
qed

theorem catalog_suppression_witness:
  "parse_score ''2:1'' = (2, 1)
   \<and> map (\<lambda>m. (mkt_type m, map opt_key (mkt_bets m)))
          (projr (build_live_markets live_odds_sample [] [] ''2:1''))
       = [(''match_result'', [''home'', ''draw'', ''away'']),
          (''total_goals'', [''total_over_3.5'', ''total_under_3.5'']),
          (''home_total'', [''home_over_2.5'', ''home_under_2.5'']),
          (''total_corners'', [''corners_over_9.5''])]
   \<and> has_odds live_odds_sample ''total_under_1.5''
   \<and> has_odds live_odds_sample ''total_over_3.5''
   \<and> list_all (\<lambda>m. mkt_bets m \<noteq> []) (projr (build_live_markets live_odds_sample [] [] ''2:1''))
   \<and> (\<exists>m \<in> set (projr (build_live_markets live_odds_sample [] [] ''2:1'')).
         mkt_type m = ''total_goals''
         \<and> list_all (line_option_within ''total'' (21 / 2) 3) (mkt_bets m)
         \<and> (\<exists>b \<in> set (mkt_bets m). opt_key b = ''total_over_3.5''))"
proof -
  let ?r = "build_live_markets live_odds_sample [] [] ''2:1''"
  have ni: "\<not> isl ?r" by code_simp
  then have run: "?r = Inr (projr ?r)" by simp
  have sc: "parse_score ''2:1'' = (2, 1)" by code_simp
  have view: "map (\<lambda>m. (mkt_type m, map opt_key (mkt_bets m))) (projr ?r)
       = [(''match_result'', [''home'', ''draw'', ''away'']),
          (''total_goals'', [''total_over_3.5'', ''total_under_3.5'']),
          (''home_total'', [''home_over_2.5'', ''home_under_2.5'']),
          (''total_corners'', [''corners_over_9.5''])]"
    by code_simp
  have odds: "has_odds live_odds_sample ''total_under_1.5''"
    "has_odds live_odds_sample ''total_over_3.5''"
    by code_simp+
  have line: "has_odds live_odds_sample (''total_over_'' @ ''3.5'') \<and> py_float ''3.5'' = Some (7 / 2)
      \<and> (7 / 2 :: rat) \<le> 21 / 2 \<and> \<not> (0 < (2 :: int) + 1 \<and> (7 / 2 :: rat) < of_int (2 + 1))"
    by code_simp
  note inst = catalog_suppression [OF run sc]
  from inst have nonempty: "list_all (\<lambda>m. mkt_bets m \<noteq> []) (projr ?r)"
    unfolding list_all_iff by blast
  from inst line obtain m where m: "m \<in> set (projr ?r)" "mkt_type m = ''total_goals''"
    "\<exists>b \<in> set (mkt_bets m). opt_key b = ''total_over_'' @ ''3.5''"
    by blast
  from inst m(1,2) have "list_all (line_option_within ''total'' (21 / 2) (2 + 1)) (mkt_bets m)"
    by blast
  with m have "\<exists>m \<in> set (projr ?r). mkt_type m = ''total_goals''
         \<and> list_all (line_option_within ''total'' (21 / 2) 3) (mkt_bets m)
         \<and> (\<exists>b \<in> set (mkt_bets m). opt_key b = ''total_over_3.5'')"
    by auto
  with sc view odds nonempty show ?thesis by blast
qed


end
